theory Spec2Isabelle
  imports Complex_Main
begin

section \<open>Data model of the MedAI front end (src/frontend/script.js)\<close>

text \<open>
  The script keeps two globals, \<open>currentUser\<close> and \<open>chatHistory\<close>, two keys in
  \<open>localStorage\<close> (\<open>medai_user\<close>, \<open>medai_chat_history\<close>) and the parts of the page it reads
  and writes. All of it is gathered in the record \<open>app\<close>; every method of \<open>MedAIApp\<close>
  becomes a function on that record.

  A JavaScript string is a sequence of UTF-16 code units, here a list of numbers; the
  literal \<open>'abc'\<close> of the script is written \<open>js ''abc''\<close>. Names of form fields and of JSON
  properties are constants of the script and stay HOL strings.
\<close>

type_synonym jsstring = "nat list"

definition js :: "string \<Rightarrow> jsstring" where
  "js s = map of_char s"

text \<open>
  The identity comes out of \<open>response.json()\<close> and \<open>JSON.parse\<close> and is used as it comes, so
  it is any JSON value. The script tests it with \<open>!currentUser\<close> and reads
  \<open>currentUser.id\<close>: reading a property of \<open>null\<close> throws a TypeError, a primitive or
  an array has no \<open>id\<close>, and in an object parsed from JSON the last of several equal
  keys counts.
\<close>

datatype json =
    JNull
  | JBool bool
  | JNum rat
  | JStr jsstring
  | JArr "json list"
  | JObj "(string \<times> json) list"

datatype error = NetworkError | SyntaxError | TypeError | AppError jsstring

fun falsy :: "json \<Rightarrow> bool" where
  "falsy JNull = True"
| "falsy (JBool b) = (\<not> b)"
| "falsy (JNum x) = (x = 0)"
| "falsy (JStr t) = (t = [])"
| "falsy (JArr xs) = False"
| "falsy (JObj kvs) = False"

fun id_of :: "json \<Rightarrow> error + json option" where
  "id_of JNull = Inl TypeError"
| "id_of (JObj kvs) = Inr (map_of (rev kvs) ''id'')"
| "id_of (JBool b) = Inr None"
| "id_of (JNum x) = Inr None"
| "id_of (JStr t) = Inr None"
| "id_of (JArr xs) = Inr None"

record chat_entry =
  query :: jsstring
  response :: jsstring
  timestamp :: nat

datatype sender = User | Bot

text \<open>A child of \<open>#chatContainer\<close>: the welcome screen, or a message with its type, the
  content given to \<open>addMessage\<close> and the clock reading shown beside it.\<close>

datatype node = WelcomeScreen | Message sender jsstring nat

datatype toast_type = Success | Error

datatype modal = LoadingModal | PredictionModal | AnalyzeModal

record js_file =
  file_name :: jsstring
  file_type :: jsstring
  file_size :: nat

datatype jsnum = NaN | PosInfinity | NegInfinity | Num rat

record prediction_data =
  pd_user_id :: "json option"
  age :: jsnum
  gender :: jsstring
  lifestyle :: jsstring
  symptoms :: jsstring
  bmi :: jsnum
  glucose :: jsnum
  blood_pressure :: jsnum
  diabetes_pedigree :: jsnum
  pregnancies :: jsnum
  skin_thickness :: jsnum
  insulin :: jsnum

text \<open>The calls to \<open>fetch\<close>, by endpoint, with the payload the script sends. The user
  identifier is the value of \<open>currentUser.id\<close>, \<open>None\<close> when that is \<open>undefined\<close>.\<close>

datatype request =
    POST_users jsstring jsstring
  | POST_chat "json option" jsstring
  | POST_predict prediction_data
  | POST_analyze_report js_file "json option"
  | GET_history_predictions "json option"
  | GET_history_chats "json option"
  | GET_history_reports "json option"
  | POST_generate_report "json option" "nat option" "nat option" "nat option"

text \<open>
  What a \<open>fetch\<close> does: the promise rejects, or it resolves to a response whose \<open>ok\<close> is
  true (\<open>Succeeds\<close>, with the value of \<open>response.json()\<close>, \<open>None\<close> when that rejects) or
  false (\<open>Fails\<close>, with \<open>response.status\<close> and what the script reads of the error body).
\<close>

datatype ('s, 'f) outcome = Rejects | Succeeds "'s option" | Fails nat 'f

record chat_body =
  answer :: "jsstring option"
  chat_response :: "jsstring option"

record prediction_result =
  disease :: jsstring
  risk_text :: jsstring
  explanation :: jsstring
  recommendations :: jsstring

record analysis_result =
  findings :: "jsstring option"
  advice :: "jsstring option"

datatype report_body = PdfDocument | JsonDocument

text \<open>
  The world outside one operation: the reply to the k-th \<open>POST /users\<close> the operation
  issues (a success carries any JSON value; the error body is \<open>errorData.detail\<close>, \<open>None\<close>
  when the body is not JSON, \<open>Some None\<close> when it has no such field), the reply of every
  other endpoint (each is called at most once by an operation), the k-th reading of the
  clock, the value of \<open>Math.floor(Math.random() * 1000)\<close>, and two facts about the page
  and its libraries, which are not part of the script: the default values of the
  prediction form, which \<open>form.reset()\<close> restores, and, for the content of a bot message,
  whether the HTML that \<open>addMessage\<close> puts into the page for it (\<open>preprocessMarkdown\<close>, then
  \<open>marked.parse\<close>, the plain text when that throws) holds an element of class
  \<open>welcome-screen\<close>.
\<close>

record env =
  users_replies :: "nat \<Rightarrow> (json, jsstring option option) outcome"
  chat_reply :: "(chat_body, jsstring) outcome"
  predict_reply :: "(prediction_result, jsstring) outcome"
  analyze_reply :: "(analysis_result, jsstring) outcome"
  predictions_reply :: "(nat list, unit) outcome"
  chats_reply :: "(nat list, unit) outcome"
  reports_reply :: "(nat list, unit) outcome"
  generate_reply :: "(report_body, unit) outcome"
  date_now :: "nat \<Rightarrow> nat"
  random_1000 :: nat
  form_defaults :: "string \<Rightarrow> jsstring option"
  welcome_in_html :: "jsstring \<Rightarrow> bool"

record app =
  currentUser :: json
  chatHistory :: "chat_entry list"
  ls_medai_user :: "json option"
  ls_medai_chat_history :: "chat_entry list option"
  messageInput :: jsstring
  sendBtn_disabled :: bool
  chatContainer :: "node list"
  toasts :: "(jsstring \<times> toast_type) list"
  modalOverlay_active :: bool
  modal_display :: "modal \<Rightarrow> bool"
  loadingText :: jsstring
  predictionForm :: "string \<Rightarrow> jsstring option"
  reportFile :: "js_file option"
  uploadPreview :: "(jsstring \<times> nat) option"
  requests :: "request list"
  downloads :: "nat list"
  clock_reads :: nat

section \<open>View helpers\<close>

definition now :: "env \<Rightarrow> app \<Rightarrow> nat" where
  "now e s = date_now e (clock_reads s)"

definition tick :: "app \<Rightarrow> app" where
  "tick s = s\<lparr>clock_reads := Suc (clock_reads s)\<rparr>"

definition fetch :: "request \<Rightarrow> app \<Rightarrow> app" where
  "fetch r s = s\<lparr>requests := requests s @ [r]\<rparr>"

definition showToast :: "jsstring \<Rightarrow> toast_type \<Rightarrow> app \<Rightarrow> app" where
  "showToast message type s = s\<lparr>toasts := toasts s @ [(message, type)]\<rparr>"

text \<open>\<open>chatContainer.querySelector('.welcome-screen')\<close> searches the whole container: it
  finds the welcome screen itself and any such element inside the HTML of a bot message.
  A user message is set as plain text and holds no element.\<close>

definition shows_welcome :: "env \<Rightarrow> node \<Rightarrow> bool" where
  "shows_welcome e n =
     (case n of
        WelcomeScreen \<Rightarrow> True
      | Message type content t \<Rightarrow>
          (case type of User \<Rightarrow> False | Bot \<Rightarrow> welcome_in_html e content))"

definition addMessage :: "env \<Rightarrow> jsstring \<Rightarrow> sender \<Rightarrow> app \<Rightarrow> app" where
  "addMessage e content type s =
     tick (s\<lparr>chatContainer :=
       (if list_ex (shows_welcome e) (chatContainer s) then [] else chatContainer s)
         @ [Message type content (now e s)]\<rparr>)"

definition showModal :: "modal \<Rightarrow> app \<Rightarrow> app" where
  "showModal m s =
     s\<lparr>modalOverlay_active := True, modal_display := (modal_display s)(m := True)\<rparr>"

definition hideModal :: "modal \<Rightarrow> app \<Rightarrow> app" where
  "hideModal m s =
     s\<lparr>modal_display := (modal_display s)(m := False), modalOverlay_active := False\<rparr>"

definition showLoading :: "jsstring \<Rightarrow> app \<Rightarrow> app" where
  "showLoading message s = showModal LoadingModal (s\<lparr>loadingText := message\<rparr>)"

definition hideLoading :: "app \<Rightarrow> app" where
  "hideLoading s = hideModal LoadingModal s"

section \<open>Identity\<close>

text \<open>The decimal digits of a number, as \<open>${Date.now()}\<close> writes them; 48 is the digit 0.\<close>

fun decimal :: "nat \<Rightarrow> jsstring" where
  "decimal n = (if n < 10 then [48 + n] else decimal (n div 10) @ [48 + n mod 10])"

declare decimal.simps [simp del]

definition guest_email :: "nat \<Rightarrow> jsstring" where
  "guest_email t = js ''guest-'' @ decimal t @ js ''@example.com''"

definition retry_email :: "nat \<Rightarrow> jsstring" where
  "retry_email t = js ''guest-'' @ decimal t @ js ''-retry@example.com''"

text \<open>The \<open>catch\<close> block of \<open>createUser\<close>: a local placeholder identity.\<close>

definition mockUser :: "env \<Rightarrow> app \<Rightarrow> json \<times> app" where
  "mockUser e s =
     (let u = JObj [(''id'', JNum (of_nat (random_1000 e mod 1000 + 1))),
                    (''name'', JStr (js ''Guest User'')),
                    (''email'', JStr (guest_email (now e s)))]
      in (u, (tick s)\<lparr>ls_medai_user := Some u\<rparr>))"

definition is_duplicate :: "(json, jsstring option option) outcome \<Rightarrow> bool" where
  "is_duplicate r = (r = Fails 400 (Some (Some (js ''Email already registered''))))"

text \<open>
  \<open>createUser\<close> calls itself on a duplicate-email reply, and the backend may give that
  reply every time, so the function is partial: \<open>None\<close> is the run that never returns.
  The argument \<open>k\<close> counts the attempts; it selects the reply. On success the function
  returns what \<open>response.json()\<close> gave, whatever it is.
\<close>

partial_function (option) createUser ::
  "env \<Rightarrow> jsstring \<Rightarrow> jsstring \<Rightarrow> nat \<Rightarrow> app \<Rightarrow> (json \<times> app) option" where
  "createUser e name email k s =
     (let uniqueEmail = guest_email (now e s);
          s1 = fetch (POST_users (if name = [] then js ''Guest User'' else name)
                                 (if email = [] then uniqueEmail else email)) (tick s)
      in case users_replies e k of
           Rejects \<Rightarrow> Some (mockUser e s1)
         | Succeeds None \<Rightarrow> Some (mockUser e s1)
         | Succeeds (Some u) \<Rightarrow>
             Some (u, showToast (js ''User profile created successfully!'') Success
                        (s1\<lparr>ls_medai_user := Some u\<rparr>))
         | Fails status errorData \<Rightarrow>
             (case errorData of
                None \<Rightarrow> Some (mockUser e s1)
              | Some detail \<Rightarrow>
                  if status = 400 \<and> detail = Some (js ''Email already registered'')
                  then createUser e name (retry_email (now e s1)) (Suc k) (tick s1)
                  else Some (mockUser e s1)))"

text \<open>\<open>if (!currentUser) currentUser = await this.createUser('Guest User', 'guest@example.com')\<close>\<close>

definition ensureUser :: "env \<Rightarrow> app \<Rightarrow> app option" where
  "ensureUser e s =
     (if falsy (currentUser s)
      then (case createUser e (js ''Guest User'') (js ''guest@example.com'') 0 s of
              None \<Rightarrow> None
            | Some (u, s') \<Rightarrow> Some (s'\<lparr>currentUser := u\<rparr>))
      else Some s)"

section \<open>Persistence\<close>

definition loadUserData :: "app \<Rightarrow> app" where
  "loadUserData s =
     (let s1 = (case ls_medai_user s of None \<Rightarrow> s | Some u \<Rightarrow> s\<lparr>currentUser := u\<rparr>)
      in case ls_medai_chat_history s1 of
           None \<Rightarrow> s1
         | Some h \<Rightarrow> s1\<lparr>chatHistory := h\<rparr>)"

text \<open>\<open>xs.slice(-50)\<close>: the last 50 elements, all of them when there are fewer.\<close>

definition slice_last :: "nat \<Rightarrow> 'a list \<Rightarrow> 'a list" where
  "slice_last n xs = drop (length xs - n) xs"

definition saveChatHistory :: "env \<Rightarrow> jsstring \<Rightarrow> jsstring \<Rightarrow> app \<Rightarrow> app" where
  "saveChatHistory e q r s =
     (let pushed = chatHistory s @ [\<lparr>query = q, response = r, timestamp = now e s\<rparr>];
          kept = (if length pushed > 50 then slice_last 50 pushed else pushed)
      in (tick s)\<lparr>chatHistory := kept, ls_medai_chat_history := Some kept\<rparr>)"

definition startNewChat :: "app \<Rightarrow> app" where
  "startNewChat s =
     showToast (js ''New conversation started'') Success
       (s\<lparr>chatContainer := [WelcomeScreen], chatHistory := [],
          ls_medai_chat_history := None\<rparr>)"

section \<open>Chat\<close>

text \<open>
  The white space that \<open>trim\<close>, \<open>parseInt\<close> and \<open>parseFloat\<close> skip, by code unit: tab, line
  feed, vertical tab, form feed, carriage return, space, no-break space (U+00A0), the
  space separators U+1680, U+2000 to U+200A, U+202F, U+205F and U+3000, the line and
  paragraph separators U+2028 and U+2029, and the byte order mark U+FEFF.
\<close>

definition is_ws :: "nat \<Rightarrow> bool" where
  "is_ws c =
     (c \<in> {9, 10, 11, 12, 13, 32, 160, 5760, 8232, 8233, 8239, 8287, 12288, 65279}
      \<or> (8192 \<le> c \<and> c \<le> 8202))"

definition trim :: "jsstring \<Rightarrow> jsstring" where
  "trim s = rev (dropWhile is_ws (rev (dropWhile is_ws s)))"

text \<open>\<open>x || d\<close> on a value that is a string or missing: the empty string is falsy too.\<close>

definition or_string :: "jsstring option \<Rightarrow> jsstring \<Rightarrow> jsstring" where
  "or_string x d = (case x of Some (c # cs) \<Rightarrow> c # cs | _ \<Rightarrow> d)"

definition callGeminiAPI :: "env \<Rightarrow> jsstring \<Rightarrow> app \<Rightarrow> (error + jsstring) \<times> app" where
  "callGeminiAPI e q s =
     (if falsy (currentUser s) then (Inl (AppError (js ''User not created'')), s)
      else
        (case id_of (currentUser s) of
           Inl err \<Rightarrow> (Inl err, s)
         | Inr uid \<Rightarrow>
             (let s1 = fetch (POST_chat uid q) s
              in case chat_reply e of
                   Rejects \<Rightarrow> (Inl NetworkError, s1)
                 | Fails status errorText \<Rightarrow>
                     (Inl (AppError (js ''API request failed: '' @ decimal status @ js '' ''
                                      @ errorText)), s1)
                 | Succeeds None \<Rightarrow> (Inl SyntaxError, s1)
                 | Succeeds (Some data) \<Rightarrow>
                     (Inr (or_string (answer data) (or_string (chat_response data)
                        (js ''I received your message but got an unexpected response.''))),
                      s1))))"

text \<open>The \<open>try\<close> block of \<open>sendMessage\<close>; \<open>Inl\<close> is the exception it throws.\<close>

definition sendMessage_try :: "env \<Rightarrow> jsstring \<Rightarrow> app \<Rightarrow> ((error + unit) \<times> app) option" where
  "sendMessage_try e message s =
     (case ensureUser e s of
        None \<Rightarrow> None
      | Some s1 \<Rightarrow>
          (case callGeminiAPI e message s1 of
             (Inl err, s2) \<Rightarrow> Some (Inl err, s2)
           | (Inr r, s2) \<Rightarrow>
               Some (Inr (), saveChatHistory e message r (addMessage e r Bot s2))))"

definition sendMessage :: "env \<Rightarrow> app \<Rightarrow> ((error + unit) \<times> app) option" where
  "sendMessage e s =
     (let message = trim (messageInput s)
      in if message = [] then Some (Inr (), s)
         else
           (let s1 = (addMessage e message User s)\<lparr>messageInput := []\<rparr>;
                s2 = s1\<lparr>sendBtn_disabled := True\<rparr>
            in case sendMessage_try e message s2 of
                 None \<Rightarrow> None
               | Some (r, s3) \<Rightarrow>
                   (let s4 = (case r of
                                Inl err \<Rightarrow>
                                  addMessage e
                                    (js ''Sorry, I encountered an error. Please try again.'') Bot
                                    (showToast (js ''Error sending message. Please try again.'')
                                       Error s3)
                              | Inr u \<Rightarrow> s3)
                    in Some (Inr (), s4\<lparr>sendBtn_disabled := False\<rparr>))))"

section \<open>Risk prediction\<close>

text \<open>
  \<open>parseInt\<close> and \<open>parseFloat\<close> on a string, after ECMAScript: leading white space is
  skipped, a sign is read, and the longest prefix that is a numeral is taken; with no
  such prefix the result is \<open>NaN\<close>. Digits are the code units 48 to 57, letters count
  as digits of a radix above 10. The result carries the exact value of the numeral:
  rounding to a binary64 number, with its overflow to \<open>Infinity\<close> and underflow to 0, is
  not part of the model.
\<close>

definition digit_val :: "nat \<Rightarrow> nat option" where
  "digit_val c =
     (if 48 \<le> c \<and> c \<le> 57 then Some (c - 48)
      else if 97 \<le> c \<and> c \<le> 122 then Some (c - 87)
      else if 65 \<le> c \<and> c \<le> 90 then Some (c - 55)
      else None)"

definition is_radix_digit :: "nat \<Rightarrow> nat \<Rightarrow> bool" where
  "is_radix_digit R c = (case digit_val c of None \<Rightarrow> False | Some d \<Rightarrow> d < R)"

definition numeral_value :: "nat \<Rightarrow> jsstring \<Rightarrow> nat" where
  "numeral_value R z = foldl (\<lambda>acc c. acc * R + the (digit_val c)) 0 z"

definition is_sign :: "nat \<Rightarrow> bool" where
  "is_sign c = (c = of_char (CHR ''+'') \<or> c = of_char (CHR ''-''))"

definition strip_sign :: "jsstring \<Rightarrow> bool \<times> jsstring" where
  "strip_sign s =
     (case s of
        [] \<Rightarrow> (False, [])
      | c # cs \<Rightarrow> if is_sign c then (c = of_char (CHR ''-''), cs) else (False, c # cs))"

definition signed :: "bool \<Rightarrow> rat \<Rightarrow> rat" where
  "signed neg v = (if neg then - v else v)"

definition parseInt :: "jsstring \<Rightarrow> jsnum" where
  "parseInt s =
     (let (neg, s1) = strip_sign (dropWhile is_ws s);
          hex = (take 2 s1 = js ''0x'' \<or> take 2 s1 = js ''0X'');
          R = (if hex then 16 else 10);
          s2 = (if hex then drop 2 s1 else s1);
          z = takeWhile (is_radix_digit R) s2
      in if z = [] then NaN else Num (signed neg (of_nat (numeral_value R z))))"

text \<open>The exponent part \<open>e[+-]digits\<close> of a decimal literal, 0 when there is none.\<close>

definition exponent_part :: "jsstring \<Rightarrow> int" where
  "exponent_part s =
     (case s of
        [] \<Rightarrow> 0
      | c # cs \<Rightarrow>
          if c = of_char (CHR ''e'') \<or> c = of_char (CHR ''E'')
          then (let (neg, ds) = strip_sign cs;
                    z = takeWhile (is_radix_digit 10) ds
                in if z = [] then 0
                   else if neg then - int (numeral_value 10 z) else int (numeral_value 10 z))
          else 0)"

definition pow10 :: "int \<Rightarrow> rat" where
  "pow10 x = (if 0 \<le> x then 10 ^ nat x else 1 / 10 ^ nat (- x))"

definition parseFloat :: "jsstring \<Rightarrow> jsnum" where
  "parseFloat s =
     (let (neg, u) = strip_sign (dropWhile is_ws s)
      in if take 8 u = js ''Infinity'' then (if neg then NegInfinity else PosInfinity)
         else
           (let ip = takeWhile (is_radix_digit 10) u;
                r1 = dropWhile (is_radix_digit 10) u;
                fp = (case r1 of
                        [] \<Rightarrow> []
                      | c # cs \<Rightarrow>
                          if c = of_char (CHR ''.'') then takeWhile (is_radix_digit 10) cs else []);
                r2 = (case r1 of
                        [] \<Rightarrow> []
                      | c # cs \<Rightarrow>
                          if c = of_char (CHR ''.'') then dropWhile (is_radix_digit 10) cs else r1)
            in if ip = [] \<and> fp = [] then NaN
               else Num (signed neg (of_nat (numeral_value 10 (ip @ fp))
                                     * pow10 (exponent_part r2 - int (length fp))))))"

text \<open>\<open>formData.get(name)\<close> is \<open>null\<close> for a field the form does not have, and the
  parsers convert their argument to a string first.\<close>

definition to_string :: "jsstring option \<Rightarrow> jsstring" where
  "to_string x = (case x of None \<Rightarrow> js ''null'' | Some v \<Rightarrow> v)"

text \<open>\<open>x || d\<close> on a number: \<open>NaN\<close> and zero are falsy.\<close>

definition or_num :: "jsnum \<Rightarrow> rat \<Rightarrow> jsnum" where
  "or_num x d = (if x = NaN \<or> x = Num 0 then Num d else x)"

definition predictionData :: "json option \<Rightarrow> (string \<Rightarrow> jsstring option) \<Rightarrow> prediction_data" where
  "predictionData uid formData =
     \<lparr>pd_user_id = uid,
      age = or_num (parseInt (to_string (formData ''age''))) 30,
      gender = or_string (formData ''gender'') (js ''unknown''),
      lifestyle = or_string (formData ''lifestyle'') (js ''Not specified''),
      symptoms = or_string (formData ''symptoms'') (js ''No symptoms reported''),
      bmi = or_num (parseFloat (to_string (formData ''bmi''))) 25,
      glucose = or_num (parseInt (to_string (formData ''glucose''))) 100,
      blood_pressure = or_num (parseInt (to_string (formData ''blood_pressure''))) 120,
      diabetes_pedigree = or_num (parseFloat (to_string (formData ''diabetes_pedigree''))) (1 / 2),
      pregnancies = or_num (parseInt (to_string (formData ''pregnancies''))) 0,
      skin_thickness = or_num (parseFloat (to_string (formData ''skin_thickness''))) 20,
      insulin = or_num (parseInt (to_string (formData ''insulin''))) 80\<rparr>"

text \<open>The line feed of a template literal.\<close>

definition nl :: jsstring where
  "nl = [10]"

text \<open>The field \<open>risk_text\<close> stands for \<open>(result.risk * 100).toFixed(1)\<close>.\<close>

definition predictionMessage :: "prediction_result \<Rightarrow> jsstring" where
  "predictionMessage result =
     nl @ js ''Disease: '' @ disease result @ nl @
     js ''Risk: '' @ risk_text result @ js ''%'' @ nl @ nl @
     js ''Explanation:'' @ nl @ explanation result @ nl @ nl @
     js ''Recommendations:'' @ nl @ recommendations result @ nl @ js ''            ''"

definition submitPredictionForm_try ::
  "env \<Rightarrow> prediction_data \<Rightarrow> app \<Rightarrow> (error + unit) \<times> app" where
  "submitPredictionForm_try e pd s =
     (let s1 = fetch (POST_predict pd) s
      in case predict_reply e of
           Rejects \<Rightarrow> (Inl NetworkError, s1)
         | Fails status errorText \<Rightarrow>
             (Inl (AppError (js ''Prediction failed: '' @ decimal status @ js '' '' @ errorText)),
              s1)
         | Succeeds None \<Rightarrow> (Inl SyntaxError, s1)
         | Succeeds (Some result) \<Rightarrow>
             (Inr (),
              showToast (js ''Risk assessment completed successfully!'') Success
                ((hideModal PredictionModal (addMessage e (predictionMessage result) Bot s1))
                   \<lparr>predictionForm := form_defaults e\<rparr>)))"

text \<open>The payload is built before the \<open>try\<close> block is entered, so a TypeError of
  \<open>currentUser.id\<close> leaves the operation.\<close>

definition submitPredictionForm :: "env \<Rightarrow> app \<Rightarrow> ((error + unit) \<times> app) option" where
  "submitPredictionForm e s =
     (let formData = predictionForm s
      in case ensureUser e s of
           None \<Rightarrow> None
         | Some s1 \<Rightarrow>
             (case id_of (currentUser s1) of
                Inl err \<Rightarrow> Some (Inl err, s1)
              | Inr uid \<Rightarrow>
                  (let pd = predictionData uid formData;
                       s2 = showLoading (js ''Calculating your health risk...'') s1;
                       (r, s3) = submitPredictionForm_try e pd s2;
                       s4 = (case r of
                               Inl err \<Rightarrow>
                                 showToast (js ''Error calculating risk. Please try again.'')
                                   Error s3
                             | Inr u \<Rightarrow> s3)
                   in Some (Inr (), hideLoading s4))))"

section \<open>Report analysis\<close>

text \<open>
  \<open>fileInput.files[0]\<close> is the field \<open>reportFile\<close>; the upload preview shows the file's
  name and its size (the script formats the size with \<open>formatFileSize\<close>, the model keeps
  the number of bytes).
\<close>

definition clearFile :: "app \<Rightarrow> app" where
  "clearFile s = s\<lparr>reportFile := None, uploadPreview := None\<rparr>"

definition handleFileSelect :: "app \<Rightarrow> app" where
  "handleFileSelect s =
     (case reportFile s of
        None \<Rightarrow> s
      | Some f \<Rightarrow>
          if file_type f \<noteq> js ''application/pdf''
          then clearFile (showToast (js ''Please select a PDF file'') Error s)
          else if file_size f > 10 * 1024 * 1024
          then clearFile
                 (showToast (js ''File too large. Please select a file under 10MB.'') Error s)
          else s\<lparr>uploadPreview := Some (file_name f, file_size f)\<rparr>)"

text \<open>The browser puts the chosen (or dropped) file into the input and fires the
  event that \<open>handleFileSelect\<close> listens to.\<close>

definition selectFile :: "js_file \<Rightarrow> app \<Rightarrow> app" where
  "selectFile f s = handleFileSelect (s\<lparr>reportFile := Some f\<rparr>)"

definition analysisMessage :: "analysis_result \<Rightarrow> jsstring" where
  "analysisMessage result =
     nl @ js ''Medical Report Analysis:'' @ nl @ nl @
     js ''Findings:'' @ nl @ or_string (findings result) (js ''No specific findings'') @ nl @ nl @
     js ''Advice:'' @ nl @
     or_string (advice result) (js ''Please consult with a healthcare professional'') @ nl @
     js ''            ''"

definition analyzeReport_try :: "env \<Rightarrow> js_file \<Rightarrow> app \<Rightarrow> (error + unit) \<times> app" where
  "analyzeReport_try e f s =
     (case id_of (currentUser s) of
        Inl err \<Rightarrow> (Inl err, s)
      | Inr uid \<Rightarrow>
          (let s1 = fetch (POST_analyze_report f uid) s
           in case analyze_reply e of
                Rejects \<Rightarrow> (Inl NetworkError, s1)
              | Fails status errorText \<Rightarrow>
                  (Inl (AppError (js ''Report analysis failed: '' @ decimal status @ js '' ''
                                   @ errorText)), s1)
              | Succeeds None \<Rightarrow> (Inl SyntaxError, s1)
              | Succeeds (Some result) \<Rightarrow>
                  (Inr (),
                   showToast (js ''Report analysis completed successfully!'') Success
                     (clearFile (hideModal AnalyzeModal
                        (addMessage e (analysisMessage result) Bot s1))))))"

definition analyzeReport :: "env \<Rightarrow> app \<Rightarrow> ((error + unit) \<times> app) option" where
  "analyzeReport e s =
     (case reportFile s of
        None \<Rightarrow> Some (Inr (), showToast (js ''Please select a PDF file first'') Error s)
      | Some f \<Rightarrow>
          (case ensureUser e s of
             None \<Rightarrow> None
           | Some s1 \<Rightarrow>
               (let s2 = showLoading (js ''Analyzing your medical report...'') s1;
                    (r, s3) = analyzeReport_try e f s2;
                    s4 = (case r of
                            Inl err \<Rightarrow>
                              showToast (js ''Error analyzing report. Please try again.'') Error s3
                          | Inr u \<Rightarrow> s3)
                in Some (Inr (), hideLoading s4))))"

section \<open>Report generation\<close>

definition join :: "jsstring \<Rightarrow> jsstring list \<Rightarrow> jsstring" where
  "join sep xs = (case xs of [] \<Rightarrow> [] | y # ys \<Rightarrow> y @ concat (map (\<lambda>x. sep @ x) ys))"

definition topic_line :: "chat_entry \<Rightarrow> jsstring" where
  "topic_line chat = js ''* '' @ take 50 (query chat) @ js ''...''"

definition report_heading :: jsstring where
  "report_heading =
     nl @ js ''# Health Summary Report'' @ nl @ nl @
     js ''Based on our conversation, here's a summary of your health inquiries:'' @ nl @ nl @
     js ''## Topics Discussed'' @ nl"

definition report_advice :: jsstring where
  "report_advice =
     nl @ nl @ js ''## General Health Advice'' @ nl @
     js ''* Maintain a balanced diet with plenty of fruits and vegetables'' @ nl @
     js ''* Exercise regularly (at least 30 minutes most days)'' @ nl @
     js ''* Get 7-9 hours of quality sleep each night'' @ nl @
     js ''* Stay hydrated by drinking plenty of water'' @ nl @
     js ''* Manage stress through relaxation techniques'' @ nl @ nl @
     js ''*Note: This is a general health summary. For personalized medical advice, please consult with a healthcare professional.*''
     @ nl @ js ''        ''"

definition reportMessage :: "chat_entry list \<Rightarrow> jsstring" where
  "reportMessage h = report_heading @ join nl (map topic_line h) @ report_advice"

definition createFallbackReport :: "env \<Rightarrow> app \<Rightarrow> app" where
  "createFallbackReport e s =
     showToast (js ''Health summary created based on our conversation'') Success
       (addMessage e (reportMessage (chatHistory s)) Bot s)"

text \<open>What one history lookup leaves in its variable: the \<open>id\<close> of the first record of
  an \<open>ok\<close> JSON reply, otherwise \<open>null\<close>.\<close>

definition latest_id :: "(nat list, unit) outcome \<Rightarrow> nat option" where
  "latest_id r = (case r of Succeeds (Some (x # xs)) \<Rightarrow> Some x | _ \<Rightarrow> None)"

text \<open>A lookup inside its own \<open>try\<close>: a TypeError of \<open>currentUser.id\<close> is thrown there
  and caught there.\<close>

definition lookup ::
  "(json option \<Rightarrow> request) \<Rightarrow> (nat list, unit) outcome \<Rightarrow> app \<Rightarrow> nat option \<times> app" where
  "lookup endpoint reply s =
     (case id_of (currentUser s) of
        Inl err \<Rightarrow> (None, s)
      | Inr uid \<Rightarrow> (latest_id reply, fetch (endpoint uid) s))"

text \<open>\<open>!x\<close> on an identifier: \<open>null\<close> and 0 are falsy.\<close>

definition falsy_id :: "nat option \<Rightarrow> bool" where
  "falsy_id x = (x = None \<or> x = Some 0)"

definition generateReport_try :: "env \<Rightarrow> app \<Rightarrow> (error + unit) \<times> app" where
  "generateReport_try e s =
     (let (predictionId, s1) = lookup GET_history_predictions (predictions_reply e) s;
          (chatId, s2) = lookup GET_history_chats (chats_reply e) s1;
          (reportId, s3) = lookup GET_history_reports (reports_reply e) s2
      in if falsy_id predictionId \<and> falsy_id chatId \<and> falsy_id reportId
         then (Inr (), createFallbackReport e (hideLoading s3))
         else
           (case id_of (currentUser s3) of
              Inl err \<Rightarrow> (Inl err, s3)
            | Inr uid \<Rightarrow>
                (let s4 = fetch (POST_generate_report uid predictionId chatId reportId) s3
                 in case generate_reply e of
                      Rejects \<Rightarrow> (Inl NetworkError, s4)
                    | Fails status x \<Rightarrow>
                        (Inl (AppError (js ''Server returned '' @ decimal status)), s4)
                    | Succeeds None \<Rightarrow> (Inl SyntaxError, s4)
                    | Succeeds (Some PdfDocument) \<Rightarrow>
                        (Inr (),
                         showToast (js ''Health report downloaded successfully!'') Success
                           (tick (s4\<lparr>downloads := downloads s4 @ [now e s4]\<rparr>)))
                    | Succeeds (Some JsonDocument) \<Rightarrow>
                        (Inr (), showToast (js ''Report generated successfully!'') Success s4))))"

definition generateReport :: "env \<Rightarrow> app \<Rightarrow> ((error + unit) \<times> app) option" where
  "generateReport e s =
     (case ensureUser e s of
        None \<Rightarrow> None
      | Some s1 \<Rightarrow>
          (let s2 = showLoading (js ''Generating your health report...'') s1;
               (r, s3) = generateReport_try e s2;
               s4 = (case r of
                       Inl err \<Rightarrow>
                         showToast (js ''Error generating report. Please try again.'') Error s3
                     | Inr u \<Rightarrow> s3)
           in Some (Inr (), hideLoading s4)))"

section \<open>Vocabulary of the properties\<close>

definition is_users_request :: "request \<Rightarrow> bool" where
  "is_users_request r = (case r of POST_users n m \<Rightarrow> True | _ \<Rightarrow> False)"

definition is_generate_request :: "request \<Rightarrow> bool" where
  "is_generate_request r = (case r of POST_generate_report u p c r \<Rightarrow> True | _ \<Rightarrow> False)"

definition is_predict_request :: "request \<Rightarrow> bool" where
  "is_predict_request r = (case r of POST_predict pd \<Rightarrow> True | _ \<Rightarrow> False)"

text \<open>The request of one attempt of \<open>createUser\<close>, and how an attempt ends when its
  reply is not the duplicate-email error.\<close>

definition users_request :: "env \<Rightarrow> jsstring \<Rightarrow> jsstring \<Rightarrow> app \<Rightarrow> request" where
  "users_request e name email s =
     POST_users (if name = [] then js ''Guest User'' else name)
                (if email = [] then guest_email (now e s) else email)"

definition settle :: "env \<Rightarrow> nat \<Rightarrow> app \<Rightarrow> json \<times> app" where
  "settle e k s1 =
     (case users_replies e k of
        Succeeds (Some u) \<Rightarrow>
          (u, showToast (js ''User profile created successfully!'') Success
                (s1\<lparr>ls_medai_user := Some u\<rparr>))
      | _ \<Rightarrow> mockUser e s1)"

text \<open>What identity creation may change: the stored identity, success toasts, calls to
  \<open>POST /users\<close> and the clock. Everything else is as before.\<close>

definition identity_effect :: "app \<Rightarrow> json \<Rightarrow> app \<Rightarrow> bool" where
  "identity_effect s u s' =
     (\<exists>ts rs c.
        s' = s\<lparr>ls_medai_user := Some u, toasts := toasts s @ ts,
               requests := requests s @ rs, clock_reads := c\<rparr> \<and>
        list_all (\<lambda>t. snd t = Success) ts \<and> list_all is_users_request rs)"

text \<open>The chat call fails: the promise rejects, or the response is not \<open>ok\<close>.\<close>

definition chat_fails :: "env \<Rightarrow> bool" where
  "chat_fails e = (case chat_reply e of Rejects \<Rightarrow> True | Fails st txt \<Rightarrow> True | Succeeds b \<Rightarrow> False)"

text \<open>The chat container as \<open>addMessage\<close> leaves it before it appends: emptied when
  \<open>querySelector('.welcome-screen')\<close> finds something, as it is otherwise.\<close>

definition transcript :: "env \<Rightarrow> app \<Rightarrow> node list" where
  "transcript e s =
     (if list_ex (shows_welcome e) (chatContainer s) then [] else chatContainer s)"

text \<open>The sequence under the key \<open>medai_chat_history\<close>; a missing key is the empty
  sequence. The global and the key agree once \<open>loadUserData\<close> has run.\<close>

definition stored_history :: "app \<Rightarrow> chat_entry list" where
  "stored_history s = (case ls_medai_chat_history s of None \<Rightarrow> [] | Some h \<Rightarrow> h)"

definition in_sync :: "app \<Rightarrow> bool" where
  "in_sync s = (stored_history s = chatHistory s)"

text \<open>A text with no numeral at its start for either parser: after white space and a
  sign, the text is over or goes on with something other than a digit, a decimal point
  or the word \<open>Infinity\<close>.\<close>

definition no_leading_numeral :: "jsstring \<Rightarrow> bool" where
  "no_leading_numeral v =
     (case snd (strip_sign (dropWhile is_ws v)) of
        [] \<Rightarrow> True
      | c # cs \<Rightarrow>
          \<not> is_radix_digit 10 c \<and> c \<noteq> of_char (CHR ''.'') \<and> take 8 (c # cs) \<noteq> js ''Infinity'')"

text \<open>Identity creation never returns: the script holds no identity (\<open>!currentUser\<close>) and
  every attempt is answered with the duplicate-email error.\<close>

definition never_settles :: "env \<Rightarrow> app \<Rightarrow> bool" where
  "never_settles e s = (falsy (currentUser s) \<and> (\<forall>j. is_duplicate (users_replies e j)))"

text \<open>The loading overlay is off.\<close>

definition loading_cleared :: "app \<Rightarrow> bool" where
  "loading_cleared s = (\<not> modal_display s LoadingModal \<and> \<not> modalOverlay_active s)"

section \<open>Sample inputs\<close>

definition guest :: json where
  "guest = JObj [(''id'', JNum 7), (''name'', JStr (js ''Guest User'')),
                 (''email'', JStr (js ''guest@example.com''))]"

text \<open>A backend that creates the user and answers nothing else; no message renders a
  welcome screen.\<close>

definition offline :: env where
  "offline =
     \<lparr>users_replies = (\<lambda>k. Succeeds (Some guest)), chat_reply = Rejects,
      predict_reply = Rejects, analyze_reply = Rejects, predictions_reply = Rejects,
      chats_reply = Rejects, reports_reply = Rejects, generate_reply = Rejects,
      date_now = (\<lambda>k. k), random_1000 = 41, form_defaults = (\<lambda>x. None),
      welcome_in_html = (\<lambda>c. False)\<rparr>"

text \<open>A backend that finds the email registered twice in a row, or once.\<close>

definition taken_twice :: env where
  "taken_twice =
     offline\<lparr>users_replies :=
       (\<lambda>k. if k < 2 then Fails 400 (Some (Some (js ''Email already registered'')))
            else Succeeds (Some guest))\<rparr>"

definition taken_once :: env where
  "taken_once =
     offline\<lparr>users_replies :=
       (\<lambda>k. if k < 1 then Fails 400 (Some (Some (js ''Email already registered'')))
            else Succeeds (Some guest))\<rparr>"

text \<open>A backend that answers \<open>POST /users\<close> with status 200 and the body \<open>null\<close>.\<close>

definition null_identity :: env where
  "null_identity = offline\<lparr>users_replies := (\<lambda>k. Succeeds (Some JNull))\<rparr>"

text \<open>The page as it is loaded, with nothing in storage.\<close>

definition fresh :: app where
  "fresh =
     \<lparr>currentUser = JNull, chatHistory = [], ls_medai_user = None,
      ls_medai_chat_history = None, messageInput = [], sendBtn_disabled = False,
      chatContainer = [WelcomeScreen], toasts = [], modalOverlay_active = False,
      modal_display = (\<lambda>m. False), loadingText = [], predictionForm = (\<lambda>x. None),
      reportFile = None, uploadPreview = None, requests = [], downloads = [],
      clock_reads = 0\<rparr>"

text \<open>Forms: an age that starts with a number, zeros everywhere, and a form whose
  numeric fields hold no number (the age is missing, the last one starts with a
  no-break space).\<close>

definition typed_form :: "string \<Rightarrow> jsstring option" where
  "typed_form = (\<lambda>x. None)(''age'' := Some (js ''12abc''))"

definition zero_form :: "string \<Rightarrow> jsstring option" where
  "zero_form = (\<lambda>x. Some (js ''0''))"

definition blank_form :: "string \<Rightarrow> jsstring option" where
  "blank_form =
     (\<lambda>x. None)
       (''bmi'' := Some (js ''abc''), ''glucose'' := Some [],
        ''blood_pressure'' := Some (js ''.5''), ''diabetes_pedigree'' := Some (js ''.''),
        ''pregnancies'' := Some (js ''Infinity''), ''skin_thickness'' := Some (js ''e5''),
        ''insulin'' := Some (160 # js ''x''), ''gender'' := Some [])"

definition sample_entry :: chat_entry where
  "sample_entry = \<lparr>query = js ''headache'', response = js ''rest'', timestamp = 0\<rparr>"

definition long_entry :: chat_entry where
  "long_entry =
     \<lparr>query = js ''What can I do about a headache that has lasted for three days?'',
      response = js ''See a doctor'', timestamp = 1\<rparr>"

definition text_file :: js_file where
  "text_file =
     \<lparr>file_name = js ''notes.txt'', file_type = js ''text/plain'', file_size = 12\<rparr>"

definition huge_pdf :: js_file where
  "huge_pdf =
     \<lparr>file_name = js ''scan.pdf'', file_type = js ''application/pdf'', file_size = 10485761\<rparr>"

definition limit_pdf :: js_file where
  "limit_pdf =
     \<lparr>file_name = js ''scan.pdf'', file_type = js ''application/pdf'', file_size = 10485760\<rparr>"

section \<open>Identity creation: when it returns and what it changes\<close>

lemma js_eq_iff: "js a = js b \<longleftrightarrow> a = b"
proof -
  have "inj (of_char :: char \<Rightarrow> nat)" by (simp add: inj_def)
  then show ?thesis by (simp add: js_def inj_map_eq_map)
qed

lemma createUser_settles:
  assumes "\<not> is_duplicate (users_replies e k)"
  shows "createUser e n m k s = Some (settle e k (fetch (users_request e n m s) (tick s)))"
  using assms
  by (subst createUser.simps)
     (simp add: Let_def settle_def users_request_def is_duplicate_def
           split: outcome.splits option.splits)

lemma createUser_retries:
  assumes "is_duplicate (users_replies e k)"
  shows "createUser e n m k s =
           createUser e n (retry_email (now e (fetch (users_request e n m s) (tick s)))) (Suc k)
             (tick (fetch (users_request e n m s) (tick s)))"
  using assms
  by (subst createUser.simps) (simp add: Let_def users_request_def is_duplicate_def)

lemma identity_effect_mock:
  "identity_effect s (fst (mockUser e (fetch (users_request e n m s) (tick s))))
      (snd (mockUser e (fetch (users_request e n m s) (tick s))))"
  unfolding identity_effect_def
  by (rule exI[of _ "[]"], rule exI[of _ "[users_request e n m s]"],
      rule exI[of _ "Suc (Suc (clock_reads s))"])
     (simp add: mockUser_def fetch_def tick_def Let_def is_users_request_def users_request_def)

lemma identity_effect_created:
  "identity_effect s u (showToast (js ''User profile created successfully!'') Success
                ((fetch (users_request e n m s) (tick s))\<lparr>ls_medai_user := Some u\<rparr>))"
  unfolding identity_effect_def
  by (rule exI[of _ "[(js ''User profile created successfully!'', Success)]"],
      rule exI[of _ "[users_request e n m s]"], rule exI[of _ "Suc (clock_reads s)"])
     (simp add: showToast_def fetch_def tick_def is_users_request_def users_request_def)

lemma identity_effect_settle:
  "identity_effect s (fst (settle e k (fetch (users_request e n m s) (tick s))))
      (snd (settle e k (fetch (users_request e n m s) (tick s))))"
  using identity_effect_mock[of s e n m] identity_effect_created[of s _ e n m]
  by (simp add: settle_def split: outcome.splits option.splits)

lemma identity_effect_retry:
  assumes "identity_effect (tick (fetch (users_request e n m s) (tick s))) u s'"
  shows "identity_effect s u s'"
proof -
  from assms obtain ts rs c where
    eq: "s' = (tick (fetch (users_request e n m s) (tick s)))
              \<lparr>ls_medai_user := Some u,
               toasts := toasts (tick (fetch (users_request e n m s) (tick s))) @ ts,
               requests := requests (tick (fetch (users_request e n m s) (tick s))) @ rs,
               clock_reads := c\<rparr>"
    and ts: "list_all (\<lambda>t. snd t = Success) ts" and rs: "list_all is_users_request rs"
    unfolding identity_effect_def by blast
  have "s' = s\<lparr>ls_medai_user := Some u, toasts := toasts s @ ts,
               requests := requests s @ (users_request e n m s # rs), clock_reads := c\<rparr>"
    by (simp add: eq tick_def fetch_def)
  moreover have "list_all is_users_request (users_request e n m s # rs)"
    using rs by (simp add: is_users_request_def users_request_def)
  ultimately show ?thesis
    unfolding identity_effect_def using ts by blast
qed

lemma createUser_returns:
  "\<not> is_duplicate (users_replies e (k + j)) \<Longrightarrow>
     \<exists>u s'. createUser e n m k s = Some (u, s') \<and> identity_effect s u s'"
proof (induction j arbitrary: k m s)
  case 0
  then have nd: "\<not> is_duplicate (users_replies e k)" by simp
  show ?case using createUser_settles[OF nd, of n m s] identity_effect_settle[of s e k n m]
    by (metis prod.collapse)
next
  case (Suc j)
  show ?case
  proof (cases "is_duplicate (users_replies e k)")
    case False
    show ?thesis using createUser_settles[OF False, of n m s] identity_effect_settle[of s e k n m]
      by (metis prod.collapse)
  next
    case True
    from Suc.prems have "\<not> is_duplicate (users_replies e (Suc k + j))" by simp
    from Suc.IH[OF this] obtain u s' where
      "createUser e n (retry_email (now e (fetch (users_request e n m s) (tick s)))) (Suc k)
             (tick (fetch (users_request e n m s) (tick s))) = Some (u, s')"
      and "identity_effect (tick (fetch (users_request e n m s) (tick s))) u s'"
      by blast
    then show ?thesis
      using createUser_retries[OF True, of n m s] identity_effect_retry[of e n m s u s'] by simp
  qed
qed

lemma createUser_Some_stops:
  assumes "createUser e n m k s = Some r"
  shows "\<exists>j. \<not> is_duplicate (users_replies e (k + j))"
proof (rule createUser.raw_induct
         [where P = "\<lambda>e n m k s r. \<exists>j. \<not> is_duplicate (users_replies e (k + j))", OF _ assms])
  fix cu e n m k s r
  assume IH: "\<And>e n m k s r. cu e n m k s = Some r \<Longrightarrow>
                 \<exists>j. \<not> is_duplicate (users_replies e (k + j))"
    and body: "(let uniqueEmail = guest_email (now e s);
          s1 = fetch (POST_users (if n = [] then js ''Guest User'' else n)
                                 (if m = [] then uniqueEmail else m)) (tick s)
      in case users_replies e k of
           Rejects \<Rightarrow> Some (mockUser e s1)
         | Succeeds None \<Rightarrow> Some (mockUser e s1)
         | Succeeds (Some u) \<Rightarrow>
             Some (u, showToast (js ''User profile created successfully!'') Success
                        (s1\<lparr>ls_medai_user := Some u\<rparr>))
         | Fails status errorData \<Rightarrow>
             (case errorData of
                None \<Rightarrow> Some (mockUser e s1)
              | Some detail \<Rightarrow>
                  if status = 400 \<and> detail = Some (js ''Email already registered'')
                  then cu e n (retry_email (now e s1)) (Suc k) (tick s1)
                  else Some (mockUser e s1))) = Some r"
  show "\<exists>j. \<not> is_duplicate (users_replies e (k + j))"
  proof (cases "is_duplicate (users_replies e k)")
    case False
    then have "\<not> is_duplicate (users_replies e (k + 0))" by simp
    then show ?thesis by blast
  next
    case True
    with body obtain m' s1 where "cu e n m' (Suc k) s1 = Some r"
      by (simp add: Let_def is_duplicate_def)
    from IH[OF this] obtain j where "\<not> is_duplicate (users_replies e (Suc k + j))" by blast
    then have "\<not> is_duplicate (users_replies e (k + Suc j))" by simp
    then show ?thesis by blast
  qed
qed

lemma createUser_None_iff:
  "createUser e n m k s = None \<longleftrightarrow> (\<forall>j. is_duplicate (users_replies e (k + j)))"
proof
  assume "createUser e n m k s = None"
  then show "\<forall>j. is_duplicate (users_replies e (k + j))"
    using createUser_returns[of e k _ n m s] by fastforce
next
  assume "\<forall>j. is_duplicate (users_replies e (k + j))"
  then show "createUser e n m k s = None"
    using createUser_Some_stops[of e n m k s] by (cases "createUser e n m k s") auto
qed

lemma createUser_effect:
  assumes "createUser e n m k s = Some (u, s')"
  shows "identity_effect s u s'"
proof -
  from createUser_Some_stops[OF assms] obtain j where "\<not> is_duplicate (users_replies e (k + j))"
    by blast
  from createUser_returns[OF this, of n m s] assms show ?thesis by simp
qed

lemma identity_effectD:
  assumes "identity_effect s u s'"
  shows "currentUser s' = currentUser s" "chatHistory s' = chatHistory s"
    "ls_medai_chat_history s' = ls_medai_chat_history s" "ls_medai_user s' = Some u"
    "messageInput s' = messageInput s" "sendBtn_disabled s' = sendBtn_disabled s"
    "chatContainer s' = chatContainer s" "modalOverlay_active s' = modalOverlay_active s"
    "modal_display s' = modal_display s" "predictionForm s' = predictionForm s"
    "reportFile s' = reportFile s" "downloads s' = downloads s"
    "\<exists>ts. toasts s' = toasts s @ ts \<and> list_all (\<lambda>t. snd t = Success) ts"
    "\<exists>rs. requests s' = requests s @ rs \<and> list_all is_users_request rs"
  using assms unfolding identity_effect_def by auto

text \<open>What \<open>ensureUser\<close> may change.\<close>

lemma ensureUser_effect:
  assumes "ensureUser e s = Some s1"
  shows "ls_medai_user s1 = ls_medai_user s \<or> ls_medai_user s1 = Some (currentUser s1)"
    "chatHistory s1 = chatHistory s"
    "ls_medai_chat_history s1 = ls_medai_chat_history s"
    "messageInput s1 = messageInput s" "sendBtn_disabled s1 = sendBtn_disabled s"
    "chatContainer s1 = chatContainer s" "modalOverlay_active s1 = modalOverlay_active s"
    "modal_display s1 = modal_display s" "predictionForm s1 = predictionForm s"
    "reportFile s1 = reportFile s" "downloads s1 = downloads s"
    "\<exists>ts. toasts s1 = toasts s @ ts \<and> list_all (\<lambda>t. snd t = Success) ts"
    "\<exists>rs. requests s1 = requests s @ rs \<and> list_all is_users_request rs"
proof -
  have all: "(ls_medai_user s1 = ls_medai_user s \<or> ls_medai_user s1 = Some (currentUser s1)) \<and>
    chatHistory s1 = chatHistory s \<and>
    ls_medai_chat_history s1 = ls_medai_chat_history s \<and>
    messageInput s1 = messageInput s \<and> sendBtn_disabled s1 = sendBtn_disabled s \<and>
    chatContainer s1 = chatContainer s \<and> modalOverlay_active s1 = modalOverlay_active s \<and>
    modal_display s1 = modal_display s \<and> predictionForm s1 = predictionForm s \<and>
    reportFile s1 = reportFile s \<and> downloads s1 = downloads s \<and>
    (\<exists>ts. toasts s1 = toasts s @ ts \<and> list_all (\<lambda>t. snd t = Success) ts) \<and>
    (\<exists>rs. requests s1 = requests s @ rs \<and> list_all is_users_request rs)"
  proof (cases "falsy (currentUser s)")
    case True
    with assms obtain u s' where
      cu: "createUser e (js ''Guest User'') (js ''guest@example.com'') 0 s = Some (u, s')"
      and s1: "s1 = s'\<lparr>currentUser := u\<rparr>"
      by (auto simp: ensureUser_def split: option.splits)
    note D = identity_effectD[OF createUser_effect[OF cu]]
    show ?thesis using D(13,14) by (simp add: s1 D(1-12))
  next
    case False
    with assms have s1: "s1 = s" by (simp add: ensureUser_def)
    show ?thesis by (simp add: s1)
  qed
  show "ls_medai_user s1 = ls_medai_user s \<or> ls_medai_user s1 = Some (currentUser s1)"
    "chatHistory s1 = chatHistory s"
    "ls_medai_chat_history s1 = ls_medai_chat_history s"
    "messageInput s1 = messageInput s" "sendBtn_disabled s1 = sendBtn_disabled s"
    "chatContainer s1 = chatContainer s" "modalOverlay_active s1 = modalOverlay_active s"
    "modal_display s1 = modal_display s" "predictionForm s1 = predictionForm s"
    "reportFile s1 = reportFile s" "downloads s1 = downloads s"
    "\<exists>ts. toasts s1 = toasts s @ ts \<and> list_all (\<lambda>t. snd t = Success) ts"
    "\<exists>rs. requests s1 = requests s @ rs \<and> list_all is_users_request rs"
    using all by blast+
qed

lemma ensureUser_None:
  assumes "ensureUser e s = None"
  shows "falsy (currentUser s) \<and> (\<forall>j. is_duplicate (users_replies e j))"
  using assms createUser_None_iff[of e "js ''Guest User''" "js ''guest@example.com''" 0 s]
  by (auto simp: ensureUser_def split: option.splits if_splits)

lemma ensureUser_returns:
  assumes "\<not> falsy (currentUser s) \<or> \<not> is_duplicate (users_replies e j)"
  shows "\<exists>s1. ensureUser e s = Some s1"
  using assms ensureUser_None[of e s] by (cases "ensureUser e s") auto

text \<open>The identity after \<open>ensureUser\<close>: the one the script held, or the one just
  created and stored.\<close>

lemma ensureUser_kept:
  "\<not> falsy (currentUser s) \<Longrightarrow> ensureUser e s = Some s"
  by (simp add: ensureUser_def)

section \<open>Chat history\<close>

lemma length_slice_last: "length (slice_last n xs) = min (length xs) n"
  by (simp add: slice_last_def)

lemma slice_last_suffix: "take (length xs - n) xs @ slice_last n xs = xs"
  by (simp add: slice_last_def)

lemma chatHistory_saveChatHistory:
  "chatHistory (saveChatHistory e q r s) =
     slice_last 50 (chatHistory s @ [\<lparr>query = q, response = r, timestamp = now e s\<rparr>])"
  by (simp add: saveChatHistory_def Let_def tick_def slice_last_def)

lemma stored_saveChatHistory:
  "ls_medai_chat_history (saveChatHistory e q r s) = Some (chatHistory (saveChatHistory e q r s))"
  by (simp add: saveChatHistory_def Let_def tick_def)

lemma in_sync_loadUserData: "chatHistory s = [] \<Longrightarrow> in_sync (loadUserData s)"
  by (simp add: in_sync_def stored_history_def loadUserData_def Let_def split: option.splits)

lemma in_sync_saveChatHistory: "in_sync (saveChatHistory e q r s)"
  by (simp add: in_sync_def stored_history_def stored_saveChatHistory)

lemma in_sync_startNewChat: "in_sync (startNewChat s)"
  by (simp add: in_sync_def stored_history_def startNewChat_def showToast_def)

text \<open>
  Claim C3. In every state \<open>saveChatHistory\<close> leaves, in memory and under the storage key,
  the in-memory sequence with exactly one entry appended and cut to its last 50, so the
  stored count is at most 50 after any save. Whenever the stored sequence and the global
  agree, as they do from \<open>loadUserData\<close> on (lemmas \<open>in_sync_loadUserData\<close> and the
  \<open>in_sync\<close> lemmas of the operations), this is the stored sequence with one entry appended:
  the new entry is the last one, the stored length is \<open>min (previous + 1) 50\<close>, and what is
  dropped is a prefix, the oldest entries.
\<close>

theorem saveChatHistory_appends_one_and_caps:
  "chatHistory (saveChatHistory e q r s) =
     slice_last 50 (chatHistory s @ [\<lparr>query = q, response = r, timestamp = now e s\<rparr>])
   \<and> stored_history (saveChatHistory e q r s) = chatHistory (saveChatHistory e q r s)
   \<and> length (stored_history (saveChatHistory e q r s)) \<le> 50
   \<and> (in_sync s \<longrightarrow>
        stored_history (saveChatHistory e q r s) =
          slice_last 50 (stored_history s @ [\<lparr>query = q, response = r, timestamp = now e s\<rparr>])
        \<and> length (stored_history (saveChatHistory e q r s)) = min (length (stored_history s) + 1) 50
        \<and> last (stored_history (saveChatHistory e q r s)) =
             \<lparr>query = q, response = r, timestamp = now e s\<rparr>
        \<and> take (length (stored_history s) + 1 - 50)
               (stored_history s @ [\<lparr>query = q, response = r, timestamp = now e s\<rparr>])
            @ stored_history (saveChatHistory e q r s)
            = stored_history s @ [\<lparr>query = q, response = r, timestamp = now e s\<rparr>])"
proof -
  let ?new = "\<lparr>query = q, response = r, timestamp = now e s\<rparr>"
  have mem: "stored_history (saveChatHistory e q r s) = chatHistory (saveChatHistory e q r s)"
    by (simp add: stored_history_def stored_saveChatHistory)
  have cap: "length (stored_history (saveChatHistory e q r s)) \<le> 50"
    by (simp add: mem chatHistory_saveChatHistory length_slice_last)
  have synced: "stored_history (saveChatHistory e q r s) = slice_last 50 (stored_history s @ [?new])
        \<and> length (stored_history (saveChatHistory e q r s)) = min (length (stored_history s) + 1) 50
        \<and> last (stored_history (saveChatHistory e q r s)) = ?new
        \<and> take (length (stored_history s) + 1 - 50) (stored_history s @ [?new])
            @ stored_history (saveChatHistory e q r s) = stored_history s @ [?new]"
    if "in_sync s"
  proof -
    from that have eq: "stored_history s = chatHistory s" by (simp add: in_sync_def)
    have st: "stored_history (saveChatHistory e q r s) = slice_last 50 (stored_history s @ [?new])"
      by (simp add: mem chatHistory_saveChatHistory eq)
    have len: "length (slice_last 50 (stored_history s @ [?new])) = min (length (stored_history s) + 1) 50"
      by (simp add: length_slice_last)
    have lst: "last (slice_last 50 (stored_history s @ [?new])) = ?new"
      by (simp add: slice_last_def)
    have evict: "take (length (stored_history s) + 1 - 50) (stored_history s @ [?new])
                   @ slice_last 50 (stored_history s @ [?new]) = stored_history s @ [?new]"
      using slice_last_suffix[of "stored_history s @ [?new]" 50] by simp
    show ?thesis using st len lst evict by simp
  qed
  show ?thesis
    using chatHistory_saveChatHistory[of e q r s] mem cap synced by blast
qed

theorem saveChatHistory_witness:
  "in_sync fresh \<and> stored_history (saveChatHistory offline (js ''q'') (js ''r'') fresh) =
      [\<lparr>query = js ''q'', response = js ''r'', timestamp = 0\<rparr>]"
  using saveChatHistory_appends_one_and_caps[of offline "js ''q''" "js ''r''" fresh]
  by (simp add: in_sync_def stored_history_def fresh_def offline_def now_def slice_last_def)

text \<open>
  Claim C9. \<open>loadUserData\<close> does not enforce the cap: a stored sequence of more than 50
  entries becomes the in-memory history unchanged, so the count exceeds 50 until the
  next \<open>saveChatHistory\<close> cuts it to 50.
\<close>

theorem loadUserData_adopts_uncapped:
  assumes "ls_medai_chat_history s = Some h" and "50 < length h"
  shows "chatHistory (loadUserData s) = h
         \<and> 50 < length (chatHistory (loadUserData s))
         \<and> length (chatHistory (saveChatHistory e q r (loadUserData s))) = 50"
proof -
  have h: "chatHistory (loadUserData s) = h"
    using assms(1) by (simp add: loadUserData_def Let_def split: option.splits)
  show ?thesis
    using assms(2) by (simp add: h chatHistory_saveChatHistory length_slice_last)
qed

theorem loadUserData_witness:
  "ls_medai_chat_history (fresh\<lparr>ls_medai_chat_history := Some (replicate 51 sample_entry)\<rparr>)
     = Some (replicate 51 sample_entry)
   \<and> 50 < length (replicate 51 sample_entry)
   \<and> length (chatHistory (loadUserData
        (fresh\<lparr>ls_medai_chat_history := Some (replicate 51 sample_entry)\<rparr>))) = 51"
  using loadUserData_adopts_uncapped
    [of "fresh\<lparr>ls_medai_chat_history := Some (replicate 51 sample_entry)\<rparr>"
        "replicate 51 sample_entry" offline "js ''q''" "js ''r''"]
  by simp

text \<open>
  Claim C10. \<open>startNewChat\<close> empties the in-memory history and removes the stored history
  key; the current user and the stored identity stay as they were.
\<close>

theorem startNewChat_keeps_identity:
  "chatHistory (startNewChat s) = []
   \<and> ls_medai_chat_history (startNewChat s) = None
   \<and> currentUser (startNewChat s) = currentUser s
   \<and> ls_medai_user (startNewChat s) = ls_medai_user s"
  by (simp add: startNewChat_def showToast_def)

section \<open>The stored history follows the global\<close>

lemma in_sync_cong:
  "chatHistory s' = chatHistory s \<Longrightarrow> ls_medai_chat_history s' = ls_medai_chat_history s \<Longrightarrow>
     in_sync s' = in_sync s"
  by (simp add: in_sync_def stored_history_def)

lemma callGeminiAPI_keeps:
  "callGeminiAPI e q s = (r, s') \<Longrightarrow>
     chatHistory s' = chatHistory s \<and> ls_medai_chat_history s' = ls_medai_chat_history s"
  by (auto simp: callGeminiAPI_def Let_def fetch_def split: option.splits outcome.splits sum.splits if_splits)

lemma in_sync_sendMessage:
  assumes "in_sync s" and "sendMessage e s = Some (r, s')"
  shows "in_sync s'"
proof (cases "trim (messageInput s) = []")
  case True
  with assms show ?thesis by (simp add: sendMessage_def)
next
  case False
  define m where "m = trim (messageInput s)"
  define s2 where
    "s2 = (addMessage e m User s)\<lparr>messageInput := [], sendBtn_disabled := True\<rparr>"
  have k2: "chatHistory s2 = chatHistory s" "ls_medai_chat_history s2 = ls_medai_chat_history s"
    by (simp_all add: s2_def addMessage_def tick_def)
  from assms(2) False obtain s3 where s3: "ensureUser e s2 = Some s3"
    by (cases "ensureUser e s2")
       (simp_all add: sendMessage_def sendMessage_try_def Let_def m_def s2_def)
  note E = ensureUser_effect[OF s3]
  obtain c s4 where call: "callGeminiAPI e m s3 = (c, s4)"
    by (cases "callGeminiAPI e m s3")
  note K = callGeminiAPI_keeps[OF call]
  have s4: "in_sync s4"
    using assms(1) in_sync_cong[of s4 s] by (simp add: K E(2) E(3) k2)
  show ?thesis
  proof (cases c)
    case (Inl err)
    with assms(2) False s3 call have
      "s' = (addMessage e (js ''Sorry, I encountered an error. Please try again.'') Bot
              (showToast (js ''Error sending message. Please try again.'') Error s4))
            \<lparr>sendBtn_disabled := False\<rparr>"
      by (simp add: sendMessage_def sendMessage_try_def Let_def
            m_def[symmetric] s2_def[symmetric])
    then have "chatHistory s' = chatHistory s4" "ls_medai_chat_history s' = ls_medai_chat_history s4"
      by (simp_all add: addMessage_def tick_def showToast_def)
    with s4 in_sync_cong[of s' s4] show ?thesis by simp
  next
    case (Inr reply)
    with assms(2) False s3 call have
      "s' = (saveChatHistory e m reply (addMessage e reply Bot s4))\<lparr>sendBtn_disabled := False\<rparr>"
      by (simp add: sendMessage_def sendMessage_try_def Let_def
            m_def[symmetric] s2_def[symmetric])
    then have "chatHistory s' = chatHistory (saveChatHistory e m reply (addMessage e reply Bot s4))"
      "ls_medai_chat_history s' =
         ls_medai_chat_history (saveChatHistory e m reply (addMessage e reply Bot s4))"
      by simp_all
    with in_sync_saveChatHistory[of e m reply "addMessage e reply Bot s4"]
      in_sync_cong[of s' "saveChatHistory e m reply (addMessage e reply Bot s4)"]
    show ?thesis by simp
  qed
qed

lemma submitPredictionForm_try_keeps:
  "submitPredictionForm_try e pd s = (r, s') \<Longrightarrow>
     chatHistory s' = chatHistory s \<and> ls_medai_chat_history s' = ls_medai_chat_history s"
  by (auto simp: submitPredictionForm_try_def Let_def fetch_def showToast_def hideModal_def
        addMessage_def tick_def split: outcome.splits option.splits)

lemma analyzeReport_try_keeps:
  "analyzeReport_try e f s = (r, s') \<Longrightarrow>
     chatHistory s' = chatHistory s \<and> ls_medai_chat_history s' = ls_medai_chat_history s"
  by (auto simp: analyzeReport_try_def Let_def fetch_def showToast_def hideModal_def clearFile_def
        addMessage_def tick_def split: outcome.splits option.splits sum.splits)

lemma lookup_keeps:
  "lookup ep r s = (x, s') \<Longrightarrow>
     chatHistory s' = chatHistory s \<and> ls_medai_chat_history s' = ls_medai_chat_history s"
  by (auto simp: lookup_def fetch_def split: sum.splits)

lemma generateReport_try_keeps:
  assumes "generateReport_try e s = (r, s')"
  shows "chatHistory s' = chatHistory s \<and> ls_medai_chat_history s' = ls_medai_chat_history s"
proof -
  obtain p s1 where l1: "lookup GET_history_predictions (predictions_reply e) s = (p, s1)"
    by (cases "lookup GET_history_predictions (predictions_reply e) s")
  obtain c s2 where l2: "lookup GET_history_chats (chats_reply e) s1 = (c, s2)"
    by (cases "lookup GET_history_chats (chats_reply e) s1")
  obtain q s3 where l3: "lookup GET_history_reports (reports_reply e) s2 = (q, s3)"
    by (cases "lookup GET_history_reports (reports_reply e) s2")
  have k3: "chatHistory s3 = chatHistory s \<and> ls_medai_chat_history s3 = ls_medai_chat_history s"
    using lookup_keeps[OF l1] lookup_keeps[OF l2] lookup_keeps[OF l3] by simp
  have "chatHistory s' = chatHistory s3 \<and> ls_medai_chat_history s' = ls_medai_chat_history s3"
    using assms
    by (auto simp: generateReport_try_def l1 l2 l3 Let_def createFallbackReport_def showToast_def
          addMessage_def tick_def hideLoading_def hideModal_def fetch_def
          split: if_splits option.splits outcome.splits report_body.splits sum.splits)
  with k3 show ?thesis by simp
qed

lemma in_sync_submitPredictionForm:
  assumes "in_sync s" and "submitPredictionForm e s = Some (r, s')"
  shows "in_sync s'"
proof -
  from assms(2) obtain s1 where s1: "ensureUser e s = Some s1"
    by (cases "ensureUser e s") (simp_all add: submitPredictionForm_def)
  note E = ensureUser_effect[OF s1]
  show ?thesis
  proof (cases "id_of (currentUser s1)")
    case (Inl err)
    with assms(2) have "s' = s1" by (simp add: submitPredictionForm_def s1)
    with in_sync_cong[of s1 s] assms(1) show ?thesis by (simp add: E(2) E(3))
  next
    case (Inr uid)
    obtain c s3 where t: "submitPredictionForm_try e (predictionData uid (predictionForm s))
        (showLoading (js ''Calculating your health risk...'') s1) = (c, s3)"
      by (cases "submitPredictionForm_try e (predictionData uid (predictionForm s))
        (showLoading (js ''Calculating your health risk...'') s1)")
    from submitPredictionForm_try_keeps[OF t]
    have k3: "chatHistory s3 = chatHistory s" "ls_medai_chat_history s3 = ls_medai_chat_history s"
      by (simp_all add: showLoading_def showModal_def E(2) E(3))
    from assms(2) have "chatHistory s' = chatHistory s3 \<and>
        ls_medai_chat_history s' = ls_medai_chat_history s3"
      by (cases c)
         (auto simp: submitPredictionForm_def s1 Inr Let_def t hideLoading_def hideModal_def
            showToast_def)
    with k3 in_sync_cong[of s' s] assms(1) show ?thesis by simp
  qed
qed

lemma in_sync_analyzeReport:
  assumes "in_sync s" and "analyzeReport e s = Some (r, s')"
  shows "in_sync s'"
proof (cases "reportFile s")
  case None
  with assms(2) have "s' = showToast (js ''Please select a PDF file first'') Error s"
    by (simp add: analyzeReport_def)
  with assms(1) show ?thesis by (simp add: showToast_def in_sync_def stored_history_def)
next
  case (Some f)
  with assms(2) obtain s1 where s1: "ensureUser e s = Some s1"
    by (cases "ensureUser e s") (simp_all add: analyzeReport_def)
  note E = ensureUser_effect[OF s1]
  obtain c s3 where t: "analyzeReport_try e f
      (showLoading (js ''Analyzing your medical report...'') s1) = (c, s3)"
    by (cases "analyzeReport_try e f (showLoading (js ''Analyzing your medical report...'') s1)")
  from analyzeReport_try_keeps[OF t]
  have k3: "chatHistory s3 = chatHistory s" "ls_medai_chat_history s3 = ls_medai_chat_history s"
    by (simp_all add: showLoading_def showModal_def E(2) E(3))
  from assms(2) have "chatHistory s' = chatHistory s3 \<and>
      ls_medai_chat_history s' = ls_medai_chat_history s3"
    by (cases c)
       (auto simp: analyzeReport_def Some s1 Let_def t hideLoading_def hideModal_def showToast_def)
  with k3 in_sync_cong[of s' s] assms(1) show ?thesis by simp
qed

lemma in_sync_generateReport:
  assumes "in_sync s" and "generateReport e s = Some (r, s')"
  shows "in_sync s'"
proof -
  from assms(2) obtain s1 where s1: "ensureUser e s = Some s1"
    by (cases "ensureUser e s") (simp_all add: generateReport_def)
  note E = ensureUser_effect[OF s1]
  obtain c s3 where t: "generateReport_try e
      (showLoading (js ''Generating your health report...'') s1) = (c, s3)"
    by (cases "generateReport_try e (showLoading (js ''Generating your health report...'') s1)")
  from generateReport_try_keeps[OF t]
  have k3: "chatHistory s3 = chatHistory s" "ls_medai_chat_history s3 = ls_medai_chat_history s"
    by (simp_all add: showLoading_def showModal_def E(2) E(3))
  from assms(2) have "chatHistory s' = chatHistory s3 \<and>
      ls_medai_chat_history s' = ls_medai_chat_history s3"
    by (cases c)
       (auto simp: generateReport_def s1 Let_def t hideLoading_def hideModal_def showToast_def)
  with k3 in_sync_cong[of s' s] assms(1) show ?thesis by simp
qed

lemma in_sync_selectFile: "in_sync s \<Longrightarrow> in_sync (selectFile f s)"
  by (simp add: in_sync_def stored_history_def selectFile_def handleFileSelect_def clearFile_def
        showToast_def)

lemma id_of_truthy: "\<not> falsy v \<Longrightarrow> \<exists>uid. id_of v = Inr uid"
  by (cases v) simp_all

lemma id_of_throws_iff: "id_of v = Inl err \<longleftrightarrow> v = JNull \<and> err = TypeError"
  by (cases v) auto

lemma callGeminiAPI_succeeds:
  assumes "chat_reply e = Succeeds (Some data)" and "\<not> falsy (currentUser s)"
    and "id_of (currentUser s) = Inr uid"
  shows "callGeminiAPI e q s =
           (Inr (or_string (answer data) (or_string (chat_response data)
              (js ''I received your message but got an unexpected response.''))),
            fetch (POST_chat uid q) s)"
  using assms by (simp add: callGeminiAPI_def Let_def)

text \<open>A successful exchange of a page that holds an identity records exactly one
  entry.\<close>

lemma sendMessage_success_records:
  assumes "trim (messageInput s) \<noteq> []" and "chat_reply e = Succeeds (Some data)"
    and "\<not> falsy (currentUser s)"
  shows "\<exists>s' t.
           sendMessage e s = Some (Inr (), s')
           \<and> chatHistory s' =
               slice_last 50 (chatHistory s @
                 [\<lparr>query = trim (messageInput s),
                   response = or_string (answer data) (or_string (chat_response data)
                     (js ''I received your message but got an unexpected response.'')),
                   timestamp = t\<rparr>])
           \<and> ls_medai_chat_history s' = Some (chatHistory s')"
proof -
  define m where "m = trim (messageInput s)"
  define reply where "reply = or_string (answer data) (or_string (chat_response data)
                     (js ''I received your message but got an unexpected response.''))"
  define s2 where
    "s2 = (addMessage e m User s)\<lparr>messageInput := [], sendBtn_disabled := True\<rparr>"
  have cu2: "currentUser s2 = currentUser s"
    by (simp add: s2_def addMessage_def tick_def)
  have t2: "\<not> falsy (currentUser s2)" using assms(3) by (simp add: cu2)
  from id_of_truthy[OF t2] obtain uid where uid: "id_of (currentUser s2) = Inr uid" by blast
  define s4 where "s4 = addMessage e reply Bot (fetch (POST_chat uid m) s2)"
  define s' where "s' = (saveChatHistory e m reply s4)\<lparr>sendBtn_disabled := False\<rparr>"
  have run: "sendMessage e s = Some (Inr (), s')"
    using assms(1) ensureUser_kept[OF t2, of e] callGeminiAPI_succeeds[OF assms(2) t2 uid, of m]
    by (simp add: sendMessage_def sendMessage_try_def Let_def m_def[symmetric] s2_def[symmetric]
          reply_def[symmetric] s4_def s'_def)
  have h4: "chatHistory s4 = chatHistory s"
    by (simp add: s4_def addMessage_def tick_def fetch_def s2_def)
  have hist: "chatHistory s' =
      slice_last 50 (chatHistory s @ [\<lparr>query = m, response = reply, timestamp = now e s4\<rparr>])"
    by (simp add: s'_def chatHistory_saveChatHistory h4)
  have st: "ls_medai_chat_history s' = Some (chatHistory s')"
    by (simp add: s'_def stored_saveChatHistory)
  show ?thesis
    using run hist st unfolding m_def reply_def by blast
qed

section \<open>Duplicate-identity retries\<close>

lemma retry_email_nonempty: "retry_email t \<noteq> []"
  by (simp add: retry_email_def js_def)

text \<open>
  Claim C2, amended. When an attempt is answered with 400 "Email already registered" and
  the next attempt is not, user creation issues exactly one further call, with the
  regenerated email \<open>guest-<now>-retry@example.com\<close>, and returns; when that retry succeeds
  the user of the reply is returned and stored, and the only toast added is the success
  toast.
\<close>

theorem createUser_retries_once:
  assumes "is_duplicate (users_replies e k)" and "\<not> is_duplicate (users_replies e (Suc k))"
  shows "\<exists>u s'. createUser e name email k s = Some (u, s')
           \<and> requests s' = requests s @
               [users_request e name email s,
                POST_users (if name = [] then (js ''Guest User'') else name)
                           (retry_email (date_now e (Suc (clock_reads s))))]
           \<and> (\<forall>u'. users_replies e (Suc k) = Succeeds (Some u') \<longrightarrow>
                  u = u' \<and> ls_medai_user s' = Some u' \<and>
                  toasts s' = toasts s @ [(js ''User profile created successfully!'', Success)])"
proof -
  define s1 where "s1 = fetch (users_request e name email s) (tick s)"
  define m where "m = retry_email (now e s1)"
  define s2 where "s2 = fetch (users_request e name m (tick s1)) (tick (tick s1))"
  have run: "createUser e name email k s = Some (settle e (Suc k) s2)"
    unfolding s2_def m_def s1_def
    by (simp only: createUser_retries[OF assms(1)] createUser_settles[OF assms(2)])
  have req: "users_request e name m (tick s1) =
               POST_users (if name = [] then (js ''Guest User'') else name)
                          (retry_email (date_now e (Suc (clock_reads s))))"
    by (simp add: users_request_def retry_email_nonempty now_def fetch_def tick_def m_def s1_def)
  have r2: "requests s2 = requests s @
               [users_request e name email s,
                POST_users (if name = [] then (js ''Guest User'') else name)
                           (retry_email (date_now e (Suc (clock_reads s))))]"
    unfolding s2_def req by (simp add: fetch_def tick_def s1_def)
  have t2: "toasts s2 = toasts s"
    by (simp add: s2_def fetch_def tick_def s1_def)
  have reqs: "requests (snd (settle e (Suc k) s2)) = requests s2"
    by (simp add: settle_def mockUser_def showToast_def tick_def Let_def
             split: outcome.splits option.splits)
  have ok: "\<forall>u'. users_replies e (Suc k) = Succeeds (Some u') \<longrightarrow>
              fst (settle e (Suc k) s2) = u' \<and> ls_medai_user (snd (settle e (Suc k) s2)) = Some u' \<and>
              toasts (snd (settle e (Suc k) s2)) =
                toasts s2 @ [(js ''User profile created successfully!'', Success)]"
    by (simp add: settle_def showToast_def)
  obtain u s' where us: "settle e (Suc k) s2 = (u, s')"
    by (cases "settle e (Suc k) s2")
  show ?thesis
    using run reqs ok r2 t2 unfolding us by simp
qed

lemma decimal_digit: "n < 10 \<Longrightarrow> decimal n = [48 + n]"
  by (subst decimal.simps) simp

text \<open>
  Claim C2, as stated, fails: against a backend that answers the first two attempts with
  400 "Email already registered", \<open>createUser\<close> issues three calls to \<open>POST /users\<close>, that
  is two retries, each with a regenerated email.
\<close>

theorem createUser_retries_twice:
  "is_duplicate (users_replies taken_twice 0) \<and>
   map_option (requests \<circ> snd)
     (createUser taken_twice (js ''Guest User'') (js ''guest@example.com'') 0 fresh) =
   Some [POST_users (js ''Guest User'') (js ''guest@example.com''),
         POST_users (js ''Guest User'') (js ''guest-1-retry@example.com''),
         POST_users (js ''Guest User'') (js ''guest-3-retry@example.com'')]"
proof -
  have d0: "is_duplicate (users_replies taken_twice 0)"
    by (simp add: taken_twice_def offline_def is_duplicate_def)
  have d1: "is_duplicate (users_replies taken_twice (Suc 0))"
    by (simp add: taken_twice_def offline_def is_duplicate_def)
  have n2: "\<not> is_duplicate (users_replies taken_twice (Suc (Suc 0)))"
    by (simp add: taken_twice_def offline_def is_duplicate_def)
  have r2: "users_replies taken_twice (Suc (Suc 0)) = Succeeds (Some guest)"
    by (simp add: taken_twice_def offline_def)
  have clock: "date_now taken_twice = (\<lambda>k. k)"
    by (simp add: taken_twice_def offline_def)
  have "map_option (requests \<circ> snd)
     (createUser taken_twice (js ''Guest User'') (js ''guest@example.com'') 0 fresh) =
   Some [POST_users (js ''Guest User'') (js ''guest@example.com''),
         POST_users (js ''Guest User'') (js ''guest-1-retry@example.com''),
         POST_users (js ''Guest User'') (js ''guest-3-retry@example.com'')]"
    apply (simp only: createUser_retries[OF d0] createUser_retries[OF d1] createUser_settles[OF n2])
    apply (simp add: settle_def r2 showToast_def fetch_def tick_def now_def clock users_request_def
             retry_email_def fresh_def decimal_digit js_def)
    done
  with d0 show ?thesis by simp
qed

theorem createUser_retries_once_witness:
  "is_duplicate (users_replies taken_once 0) \<and> \<not> is_duplicate (users_replies taken_once (Suc 0))
   \<and> (\<exists>s'. createUser taken_once (js ''Guest User'') (js ''guest@example.com'') 0 fresh = Some (guest, s')
          \<and> toasts s' = [(js ''User profile created successfully!'', Success)])"
proof -
  have d: "is_duplicate (users_replies taken_once 0)"
    by (simp add: taken_once_def offline_def is_duplicate_def)
  have n: "\<not> is_duplicate (users_replies taken_once (Suc 0))"
    by (simp add: taken_once_def offline_def is_duplicate_def)
  have r: "users_replies taken_once (Suc 0) = Succeeds (Some guest)"
    by (simp add: taken_once_def offline_def)
  have t: "toasts fresh = []" by (simp add: fresh_def)
  show ?thesis
    using createUser_retries_once[OF d n, of "js ''Guest User''" "js ''guest@example.com''" fresh] d n
    by (simp add: r t) blast
qed

section \<open>Release of the busy indicator\<close>

lemma hideLoading_clears: "loading_cleared (hideLoading s)"
  by (simp add: loading_cleared_def hideLoading_def hideModal_def)

lemma hideLoading_keeps:
  "chatContainer (hideLoading x) = chatContainer x" "toasts (hideLoading x) = toasts x"
  "requests (hideLoading x) = requests x" "chatHistory (hideLoading x) = chatHistory x"
  "currentUser (hideLoading x) = currentUser x"
  by (simp_all add: hideLoading_def hideModal_def)

lemma ensureUser_never: "ensureUser e s = None \<Longrightarrow> never_settles e s"
  using ensureUser_None[of e s] by (simp add: never_settles_def)

lemma sendMessage_releases:
  "(case sendMessage e s of
      None \<Rightarrow> never_settles e s
    | Some (r, s') \<Rightarrow>
        r = Inr () \<and> (if trim (messageInput s) = [] then s' = s else \<not> sendBtn_disabled s'))"
proof (cases "trim (messageInput s) = []")
  case True
  then show ?thesis by (simp add: sendMessage_def)
next
  case False
  define s2 where
    "s2 = (addMessage e (trim (messageInput s)) User s)\<lparr>messageInput := [], sendBtn_disabled := True\<rparr>"
  have cu: "currentUser s2 = currentUser s"
    by (simp add: s2_def addMessage_def tick_def)
  show ?thesis
  proof (cases "ensureUser e s2")
    case None
    from ensureUser_never[OF None] have "never_settles e s"
      by (simp add: never_settles_def cu)
    with None False show ?thesis
      by (simp add: sendMessage_def sendMessage_try_def Let_def s2_def)
  next
    case (Some s3)
    with False show ?thesis
      by (simp add: sendMessage_def sendMessage_try_def Let_def s2_def
               split: prod.splits sum.splits)
  qed
qed

lemma submitPredictionForm_try_user:
  "submitPredictionForm_try e pd s = (r, s') \<Longrightarrow> currentUser s' = currentUser s"
  by (auto simp: submitPredictionForm_try_def Let_def fetch_def showToast_def hideModal_def
        addMessage_def tick_def split: outcome.splits option.splits)

text \<open>
  \<open>submitPredictionForm\<close> is the one operation that reads \<open>currentUser.id\<close> before its
  \<open>try\<close> block: it throws exactly when the identity it ends up with is \<open>null\<close>, and then
  before the loading overlay is shown. Otherwise it returns with the overlay hidden.
\<close>

lemma submitPredictionForm_releases:
  "(case submitPredictionForm e s of
      None \<Rightarrow> never_settles e s
    | Some (r, s') \<Rightarrow>
        (if currentUser s' = JNull
         then r = Inl TypeError \<and> modal_display s' = modal_display s
              \<and> modalOverlay_active s' = modalOverlay_active s
         else r = Inr () \<and> loading_cleared s'))"
proof (cases "ensureUser e s")
  case None
  with ensureUser_never[OF None] show ?thesis by (simp add: submitPredictionForm_def Let_def)
next
  case (Some s1)
  note E = ensureUser_effect[OF Some]
  show ?thesis
  proof (cases "id_of (currentUser s1)")
    case (Inl err)
    then have "currentUser s1 = JNull" "err = TypeError" by (simp_all add: id_of_throws_iff)
    with Some Inl show ?thesis
      by (simp add: submitPredictionForm_def Let_def E(7) E(8))
  next
    case (Inr uid)
    then have nn: "currentUser s1 \<noteq> JNull" by auto
    obtain c s3 where t: "submitPredictionForm_try e (predictionData uid (predictionForm s))
        (showLoading (js ''Calculating your health risk...'') s1) = (c, s3)"
      by (cases "submitPredictionForm_try e (predictionData uid (predictionForm s))
        (showLoading (js ''Calculating your health risk...'') s1)")
    from submitPredictionForm_try_user[OF t] have u3: "currentUser s3 = currentUser s1"
      by (simp add: showLoading_def showModal_def)
    show ?thesis
      using Some Inr t nn u3
      by (cases c)
         (simp_all add: submitPredictionForm_def Let_def hideLoading_clears hideLoading_keeps
            showToast_def)
  qed
qed

lemma analyzeReport_releases:
  "(case analyzeReport e s of
      None \<Rightarrow> never_settles e s
    | Some (r, s') \<Rightarrow>
        r = Inr () \<and>
        (if reportFile s = None
         then modal_display s' = modal_display s \<and> modalOverlay_active s' = modalOverlay_active s
         else loading_cleared s'))"
proof (cases "reportFile s")
  case None
  then show ?thesis by (simp add: analyzeReport_def showToast_def)
next
  case (Some f)
  show ?thesis
  proof (cases "ensureUser e s")
    case None
    with ensureUser_never[OF None] Some show ?thesis by (simp add: analyzeReport_def)
  next
    case (Some s1)
    with \<open>reportFile s = Some f\<close> show ?thesis
      by (simp add: analyzeReport_def Let_def hideLoading_clears split: prod.splits)
  qed
qed

lemma generateReport_releases:
  "(case generateReport e s of
      None \<Rightarrow> never_settles e s
    | Some (r, s') \<Rightarrow> r = Inr () \<and> loading_cleared s')"
proof (cases "ensureUser e s")
  case None
  with ensureUser_never[OF None] show ?thesis by (simp add: generateReport_def)
next
  case (Some s1)
  then show ?thesis
    by (simp add: generateReport_def Let_def hideLoading_clears split: prod.splits)
qed

text \<open>
  Claim C1. The claim holds of \<open>sendMessage\<close>, \<open>analyzeReport\<close> and \<open>generateReport\<close> (the three
  lemmas above) and fails for \<open>submitPredictionForm\<close>: when the page holds no identity
  and the backend answers \<open>POST /users\<close> with status 200 and the body \<open>null\<close>, \<open>createUser\<close>
  returns \<open>null\<close>, and reading \<open>currentUser.id\<close> for the payload, before the \<open>try\<close> block,
  throws a TypeError that leaves the operation. One call to \<open>POST /users\<close> has been made,
  none to \<open>POST /predict\<close>, and the loading overlay has not been shown.
\<close>

theorem submitPredictionForm_throws_on_null_identity:
  "users_replies null_identity 0 = Succeeds (Some JNull)
   \<and> map_option fst (submitPredictionForm null_identity fresh) = Some (Inl TypeError)
   \<and> map_option (currentUser \<circ> snd) (submitPredictionForm null_identity fresh) = Some JNull
   \<and> map_option (requests \<circ> snd) (submitPredictionForm null_identity fresh) =
       Some [POST_users (js ''Guest User'') (js ''guest@example.com'')]
   \<and> map_option (modalOverlay_active \<circ> snd) (submitPredictionForm null_identity fresh) =
       Some False"
proof -
  have r: "users_replies null_identity 0 = Succeeds (Some JNull)"
    by (simp add: null_identity_def offline_def)
  have n: "\<not> is_duplicate (users_replies null_identity 0)"
    by (simp add: r is_duplicate_def)
  have f: "falsy (currentUser fresh)" by (simp add: fresh_def)
  have g: "js ''guest@example.com'' \<noteq> []" "js ''Guest User'' \<noteq> []" by (simp_all add: js_def)
  have run: "submitPredictionForm null_identity fresh =
      Some (Inl TypeError,
        (showToast (js ''User profile created successfully!'') Success
          ((fetch (POST_users (js ''Guest User'') (js ''guest@example.com'')) (tick fresh))
             \<lparr>ls_medai_user := Some JNull\<rparr>))\<lparr>currentUser := JNull\<rparr>)"
    by (simp add: submitPredictionForm_def ensureUser_def f createUser_settles[OF n] settle_def r
          users_request_def g)
  show ?thesis
    unfolding run by (simp add: r showToast_def fetch_def tick_def fresh_def)
qed

section \<open>A chat exchange that fails\<close>

lemma offline_settles: "\<not> never_settles offline s"
  by (simp add: never_settles_def offline_def is_duplicate_def)

lemma trim_padded_hi: "trim (160 # js ''hi'' @ [32, 8232]) = js ''hi''"
  by (simp add: trim_def is_ws_def js_def)

text \<open>A message of white space only, a no-break space included, is ignored.\<close>

lemma blank_message_ignored:
  "trim (messageInput s) = [] \<Longrightarrow> sendMessage e s = Some (Inr (), s)"
  by (simp add: sendMessage_def)

lemma trim_no_break_space: "trim [160] = []" "trim [32, 160, 8233, 65279, 9] = []"
  by (simp_all add: trim_def is_ws_def)

lemma callGeminiAPI_fails:
  assumes "chat_fails e"
  shows "\<exists>err s'. callGeminiAPI e q s = (Inl err, s')
           \<and> chatContainer s' = chatContainer s \<and> toasts s' = toasts s
           \<and> chatHistory s' = chatHistory s
           \<and> ls_medai_chat_history s' = ls_medai_chat_history s"
proof (cases "falsy (currentUser s)")
  case True
  then show ?thesis by (simp add: callGeminiAPI_def)
next
  case False
  from id_of_truthy[OF False] obtain uid where uid: "id_of (currentUser s) = Inr uid" by blast
  show ?thesis
    using assms False uid
    by (cases "chat_reply e") (simp_all add: chat_fails_def callGeminiAPI_def Let_def fetch_def)
qed

lemma transcript_no_welcome: "\<not> list_ex (shows_welcome e) (transcript e s)"
  by (simp add: transcript_def)

lemma chatContainer_addMessage:
  "chatContainer (addMessage e c ty s) = transcript e s @ [Message ty c (now e s)]"
  by (simp add: addMessage_def transcript_def tick_def)

lemma user_message_no_welcome: "\<not> shows_welcome e (Message User c t)"
  by (simp add: shows_welcome_def)

text \<open>
  Claim C4. For a message that is not empty after trimming, when the chat call rejects
  or answers with a non-success status (and identity creation returns), \<open>sendMessage\<close>
  returns with the transcript extended by the user entry and exactly one assistant entry
  holding the generic apology, with the error toast as the last toast, and with the chat
  history, in memory and stored, unchanged.
\<close>

theorem sendMessage_chat_failure:
  assumes "trim (messageInput s) \<noteq> []" and "chat_fails e"
    and "\<not> falsy (currentUser s) \<or> \<not> is_duplicate (users_replies e j)"
  shows "\<exists>s' t ts.
           sendMessage e s = Some (Inr (), s')
           \<and> chatContainer s' = transcript e s @
                [Message User (trim (messageInput s)) (now e s),
                 Message Bot (js ''Sorry, I encountered an error. Please try again.'') t]
           \<and> toasts s' = toasts s @ ts @ [(js ''Error sending message. Please try again.'', Error)]
           \<and> list_all (\<lambda>t. snd t = Success) ts
           \<and> chatHistory s' = chatHistory s
           \<and> ls_medai_chat_history s' = ls_medai_chat_history s
           \<and> \<not> sendBtn_disabled s'"
proof -
  define m where "m = trim (messageInput s)"
  define s2 where
    "s2 = (addMessage e m User s)\<lparr>messageInput := [], sendBtn_disabled := True\<rparr>"
  have cu2: "currentUser s2 = currentUser s"
    by (simp add: s2_def addMessage_def tick_def)
  have "\<not> falsy (currentUser s2) \<or> \<not> is_duplicate (users_replies e j)"
    using assms(3) by (simp add: cu2)
  from ensureUser_returns[OF this] obtain s3 where s3: "ensureUser e s2 = Some s3" by blast
  note E = ensureUser_effect[OF s3]
  from E(12) obtain ts where ts: "toasts s3 = toasts s2 @ ts" "list_all (\<lambda>t. snd t = Success) ts"
    by blast
  from callGeminiAPI_fails[OF assms(2), of m s3] obtain err s4 where
    call: "callGeminiAPI e m s3 = (Inl err, s4)"
    and k4: "chatContainer s4 = chatContainer s3" "toasts s4 = toasts s3"
      "chatHistory s4 = chatHistory s3" "ls_medai_chat_history s4 = ls_medai_chat_history s3"
    by blast
  define s5 where "s5 = showToast (js ''Error sending message. Please try again.'') Error s4"
  define s' where
    "s' = (addMessage e (js ''Sorry, I encountered an error. Please try again.'') Bot s5)
            \<lparr>sendBtn_disabled := False\<rparr>"
  have run: "sendMessage e s = Some (Inr (), s')"
    using assms(1) s3 call
    by (simp add: sendMessage_def sendMessage_try_def Let_def m_def[symmetric] s2_def[symmetric]
          s5_def s'_def)
  have c2: "chatContainer s2 = transcript e s @ [Message User m (now e s)]"
    by (simp add: s2_def chatContainer_addMessage)
  have c5: "chatContainer s5 = chatContainer s2"
    by (simp add: s5_def showToast_def k4(1) E(6))
  have t5: "transcript e s5 = transcript e s @ [Message User m (now e s)]"
    using transcript_no_welcome[of e s]
    by (simp add: transcript_def[of e s5] c5 c2 user_message_no_welcome)
  have cont: "chatContainer s' = transcript e s @
                [Message User m (now e s),
                 Message Bot (js ''Sorry, I encountered an error. Please try again.'') (now e s5)]"
    by (simp add: s'_def chatContainer_addMessage t5)
  have t2: "toasts s2 = toasts s"
    by (simp add: s2_def addMessage_def tick_def)
  have toast: "toasts s' = toasts s @ ts @ [(js ''Error sending message. Please try again.'', Error)]"
    by (simp add: s'_def addMessage_def tick_def s5_def showToast_def k4(2) ts(1) t2)
  have h2: "chatHistory s2 = chatHistory s" "ls_medai_chat_history s2 = ls_medai_chat_history s"
    by (simp_all add: s2_def addMessage_def tick_def)
  have hist: "chatHistory s' = chatHistory s" "ls_medai_chat_history s' = ls_medai_chat_history s"
    by (simp_all add: s'_def addMessage_def tick_def s5_def showToast_def k4(3) k4(4)
          E(2) E(3) h2)
  have btn: "\<not> sendBtn_disabled s'" by (simp add: s'_def)
  show ?thesis
    using run cont toast ts(2) hist btn unfolding m_def by blast
qed

theorem sendMessage_chat_failure_witness:
  "trim (messageInput (fresh\<lparr>messageInput := 160 # js ''hi'' @ [32, 8232]\<rparr>)) \<noteq> []
   \<and> chat_fails offline \<and> \<not> is_duplicate (users_replies offline 0)
   \<and> (\<exists>s' t. sendMessage offline (fresh\<lparr>messageInput := 160 # js ''hi'' @ [32, 8232]\<rparr>)
                  = Some (Inr (), s')
         \<and> chatContainer s' =
             [Message User (js ''hi'') 0,
              Message Bot (js ''Sorry, I encountered an error. Please try again.'') t]
         \<and> chatHistory s' = [])"
proof -
  let ?s = "fresh\<lparr>messageInput := 160 # js ''hi'' @ [32, 8232]\<rparr>"
  have tr0: "trim (messageInput ?s) = js ''hi''" by (simp add: trim_padded_hi)
  have m: "trim (messageInput ?s) \<noteq> []" using tr0 by (simp add: js_def)
  have c: "chat_fails offline" by (simp add: chat_fails_def offline_def)
  have n: "\<not> is_duplicate (users_replies offline 0)"
    by (simp add: offline_def is_duplicate_def)
  have n': "\<not> falsy (currentUser ?s) \<or> \<not> is_duplicate (users_replies offline 0)"
    using n by simp
  have tr: "transcript offline ?s = []" by (simp add: transcript_def fresh_def shows_welcome_def)
  have t0: "now offline ?s = 0" by (simp add: now_def offline_def fresh_def)
  have h0: "chatHistory ?s = []" by (simp add: fresh_def)
  show ?thesis
    using sendMessage_chat_failure[OF m c n'] m c n
    by (simp add: tr t0 h0 trim_padded_hi) blast
qed

section \<open>The locally synthesized report\<close>

lemma lookup_result:
  assumes "\<And>u. \<not> is_generate_request (ep u)" and "falsy_id (latest_id r)"
  shows "\<exists>x s' rs. lookup ep r s = (x, s') \<and> falsy_id x
           \<and> s' = s\<lparr>requests := requests s @ rs\<rparr>
           \<and> list_all (\<lambda>r. \<not> is_generate_request r) rs"
proof (cases "id_of (currentUser s)")
  case (Inl err)
  show ?thesis
    by (rule exI[of _ None], rule exI[of _ s], rule exI[of _ "[]"])
       (simp add: lookup_def Inl falsy_id_def)
next
  case (Inr uid)
  show ?thesis
    by (rule exI[of _ "latest_id r"], rule exI[of _ "fetch (ep uid) s"], rule exI[of _ "[ep uid]"])
       (simp add: lookup_def Inr assms fetch_def)
qed

lemma append_single: "(@) [a] = (#) a"
  by (rule ext) simp

lemma join_lines: "join [10] (map f h) = drop 1 (concat (map (\<lambda>c. 10 # f c) h))"
  by (cases h) (simp_all add: join_def append_single comp_def)

lemma reportMessage_text:
  "reportMessage h =
     [10] @ js ''# Health Summary Report'' @ [10, 10] @
     js ''Based on our conversation, here's a summary of your health inquiries:'' @ [10, 10] @
     js ''## Topics Discussed'' @ [10] @
     drop 1 (concat (map (\<lambda>chat. 10 # js ''* '' @ take 50 (query chat) @ js ''...'') h)) @
     [10, 10] @ js ''## General Health Advice'' @ [10] @
     js ''* Maintain a balanced diet with plenty of fruits and vegetables'' @ [10] @
     js ''* Exercise regularly (at least 30 minutes most days)'' @ [10] @
     js ''* Get 7-9 hours of quality sleep each night'' @ [10] @
     js ''* Stay hydrated by drinking plenty of water'' @ [10] @
     js ''* Manage stress through relaxation techniques'' @ [10, 10] @
     js ''*Note: This is a general health summary. For personalized medical advice, please consult with a healthcare professional.*''
     @ [10] @ js ''        ''"
  by (simp add: reportMessage_def report_heading_def report_advice_def nl_def join_lines
        topic_line_def)

text \<open>
  Claim C6. When none of the three history lookups leaves an identifier (and identity
  creation returns), \<open>generateReport\<close> returns without any call to
  \<open>POST /generate-report\<close> and appends one assistant entry to the transcript. Its text is
  the heading, then one line per entry of the in-memory chat history, \<open>* \<close> followed by
  the first 50 code units of the query and \<open>...\<close>, the lines separated by line feeds, then
  the fixed health advice and the closing note.
\<close>

theorem generateReport_local_fallback:
  assumes "falsy_id (latest_id (predictions_reply e))"
    and "falsy_id (latest_id (chats_reply e))"
    and "falsy_id (latest_id (reports_reply e))"
    and "\<not> falsy (currentUser s) \<or> \<not> is_duplicate (users_replies e j)"
  shows "\<exists>s' rs t.
           generateReport e s = Some (Inr (), s')
           \<and> requests s' = requests s @ rs
           \<and> list_all (\<lambda>r. \<not> is_generate_request r) rs
           \<and> chatContainer s' = transcript e s @
               [Message Bot
                 ([10] @ js ''# Health Summary Report'' @ [10, 10] @
                  js ''Based on our conversation, here's a summary of your health inquiries:''
                  @ [10, 10] @ js ''## Topics Discussed'' @ [10] @
                  drop 1 (concat (map (\<lambda>chat. 10 # js ''* '' @ take 50 (query chat) @ js ''...'')
                                   (chatHistory s))) @
                  [10, 10] @ js ''## General Health Advice'' @ [10] @
                  js ''* Maintain a balanced diet with plenty of fruits and vegetables'' @ [10] @
                  js ''* Exercise regularly (at least 30 minutes most days)'' @ [10] @
                  js ''* Get 7-9 hours of quality sleep each night'' @ [10] @
                  js ''* Stay hydrated by drinking plenty of water'' @ [10] @
                  js ''* Manage stress through relaxation techniques'' @ [10, 10] @
                  js ''*Note: This is a general health summary. For personalized medical advice, please consult with a healthcare professional.*''
                  @ [10] @ js ''        '') t]
           \<and> last (toasts s') = (js ''Health summary created based on our conversation'', Success)"
proof -
  from ensureUser_returns[OF assms(4)] obtain s1 where s1: "ensureUser e s = Some s1" by blast
  note E = ensureUser_effect[OF s1]
  from E(13) obtain rs0 where rs0: "requests s1 = requests s @ rs0" "list_all is_users_request rs0"
    by blast
  define s2 where "s2 = showLoading (js ''Generating your health report...'') s1"
  from lookup_result[of GET_history_predictions, OF _ assms(1), of s2]
  obtain p s3 r1 where l1: "lookup GET_history_predictions (predictions_reply e) s2 = (p, s3)"
    and p: "falsy_id p" and s3: "s3 = s2\<lparr>requests := requests s2 @ r1\<rparr>"
    and r1: "list_all (\<lambda>r. \<not> is_generate_request r) r1"
    by (auto simp: is_generate_request_def)
  from lookup_result[of GET_history_chats, OF _ assms(2), of s3]
  obtain c s4 r2 where l2: "lookup GET_history_chats (chats_reply e) s3 = (c, s4)"
    and c: "falsy_id c" and s4: "s4 = s3\<lparr>requests := requests s3 @ r2\<rparr>"
    and r2: "list_all (\<lambda>r. \<not> is_generate_request r) r2"
    by (auto simp: is_generate_request_def)
  from lookup_result[of GET_history_reports, OF _ assms(3), of s4]
  obtain q s5 r3 where l3: "lookup GET_history_reports (reports_reply e) s4 = (q, s5)"
    and q: "falsy_id q" and s5: "s5 = s4\<lparr>requests := requests s4 @ r3\<rparr>"
    and r3: "list_all (\<lambda>r. \<not> is_generate_request r) r3"
    by (auto simp: is_generate_request_def)
  define s' where "s' = hideLoading (createFallbackReport e (hideLoading s5))"
  have body: "generateReport_try e s2 = (Inr (), createFallbackReport e (hideLoading s5))"
    by (simp add: generateReport_try_def l1 l2 l3 p c q)
  have run: "generateReport e s = Some (Inr (), s')"
    by (simp add: generateReport_def s1 s2_def[symmetric] body s'_def)
  have req: "requests s' = requests s @ (rs0 @ r1 @ r2 @ r3)"
    by (simp add: s'_def hideLoading_keeps createFallbackReport_def showToast_def
          addMessage_def tick_def s5 s4 s3 s2_def showLoading_def showModal_def rs0(1))
  have users_not_generate: "list_all (\<lambda>r. \<not> is_generate_request r) rs0"
    using rs0(2)
    by (induction rs0) (auto simp: is_users_request_def is_generate_request_def split: request.splits)
  have none: "list_all (\<lambda>r. \<not> is_generate_request r) (rs0 @ r1 @ r2 @ r3)"
    using users_not_generate r1 r2 r3 by simp
  have c5: "chatContainer (hideLoading s5) = chatContainer s"
    by (simp add: hideLoading_keeps s5 s4 s3 s2_def showLoading_def showModal_def E(6))
  have h5: "chatHistory (hideLoading s5) = chatHistory s"
    by (simp add: hideLoading_keeps s5 s4 s3 s2_def showLoading_def showModal_def E(2))
  have tr: "transcript e (hideLoading s5) = transcript e s"
    by (simp add: transcript_def c5)
  have cont: "chatContainer s' =
                transcript e s @ [Message Bot (reportMessage (chatHistory s)) (now e (hideLoading s5))]"
    by (simp add: s'_def hideLoading_keeps(1) createFallbackReport_def showToast_def
          chatContainer_addMessage tr h5)
  have toast: "last (toasts s') = (js ''Health summary created based on our conversation'', Success)"
    by (simp add: s'_def hideLoading_keeps(2) createFallbackReport_def showToast_def)
  show ?thesis
    using run req none cont toast unfolding reportMessage_text by blast
qed

lemma long_query_cut:
  "take 50 (query long_entry) = js ''What can I do about a headache that has lasted for''"
  by (simp add: long_entry_def js_def)

lemma short_query_kept: "take 50 (query sample_entry) = js ''headache''"
  by (simp add: sample_entry_def js_def)

theorem generateReport_local_fallback_witness:
  "falsy_id (latest_id (predictions_reply offline)) \<and> falsy_id (latest_id (chats_reply offline))
   \<and> falsy_id (latest_id (reports_reply offline)) \<and> \<not> is_duplicate (users_replies offline 0)
   \<and> (\<exists>s' rs t.
         generateReport offline (fresh\<lparr>chatHistory := [sample_entry, long_entry]\<rparr>)
           = Some (Inr (), s')
         \<and> requests s' = rs \<and> list_all (\<lambda>r. \<not> is_generate_request r) rs
         \<and> chatContainer s' =
             [Message Bot
               ([10] @ js ''# Health Summary Report'' @ [10, 10] @
                js ''Based on our conversation, here's a summary of your health inquiries:''
                @ [10, 10] @ js ''## Topics Discussed'' @ [10] @
                js ''* '' @ js ''headache'' @ js ''...'' @ [10] @
                js ''* '' @ js ''What can I do about a headache that has lasted for'' @ js ''...'' @
                [10, 10] @ js ''## General Health Advice'' @ [10] @
                js ''* Maintain a balanced diet with plenty of fruits and vegetables'' @ [10] @
                js ''* Exercise regularly (at least 30 minutes most days)'' @ [10] @
                js ''* Get 7-9 hours of quality sleep each night'' @ [10] @
                js ''* Stay hydrated by drinking plenty of water'' @ [10] @
                js ''* Manage stress through relaxation techniques'' @ [10, 10] @
                js ''*Note: This is a general health summary. For personalized medical advice, please consult with a healthcare professional.*''
                @ [10] @ js ''        '') t])"
proof -
  let ?s = "fresh\<lparr>chatHistory := [sample_entry, long_entry]\<rparr>"
  have p: "falsy_id (latest_id (predictions_reply offline))"
    and c: "falsy_id (latest_id (chats_reply offline))"
    and r: "falsy_id (latest_id (reports_reply offline))"
    by (simp_all add: falsy_id_def latest_id_def offline_def)
  have n: "\<not> is_duplicate (users_replies offline 0)"
    by (simp add: offline_def is_duplicate_def)
  have n': "\<not> falsy (currentUser ?s) \<or> \<not> is_duplicate (users_replies offline 0)"
    using n by simp
  have f: "requests ?s = []" "transcript offline ?s = []"
    by (simp_all add: fresh_def transcript_def shows_welcome_def)
  show ?thesis
    using generateReport_local_fallback[OF p c r n'] p c r n
    by (simp add: f long_query_cut short_query_kept) blast
qed

text \<open>A bot message whose HTML holds an element of class \<open>welcome-screen\<close> makes the
  next \<open>addMessage\<close> empty the container, as the welcome screen itself does.\<close>

lemma rendered_welcome_empties:
  assumes "welcome_in_html e c"
  shows "chatContainer (addMessage e m User (s\<lparr>chatContainer := [Message User a 0, Message Bot c 1]\<rparr>))
           = [Message User m (now e s)]"
  using assms by (simp add: addMessage_def tick_def shows_welcome_def now_def)

section \<open>Validation of the report file\<close>

lemma selectFile_wrong_type:
  "file_type f \<noteq> js ''application/pdf'' \<Longrightarrow>
     selectFile f s = clearFile (showToast (js ''Please select a PDF file'') Error (s\<lparr>reportFile := Some f\<rparr>))"
  by (simp add: selectFile_def handleFileSelect_def)

lemma selectFile_too_large:
  "file_type f = js ''application/pdf'' \<Longrightarrow> 10 * 1024 * 1024 < file_size f \<Longrightarrow>
     selectFile f s =
       clearFile (showToast (js ''File too large. Please select a file under 10MB.'') Error
         (s\<lparr>reportFile := Some f\<rparr>))"
  by (simp add: selectFile_def handleFileSelect_def)

lemma analyzeReport_no_file:
  "reportFile s = None \<Longrightarrow>
     analyzeReport e s = Some (Inr (), showToast (js ''Please select a PDF file first'') Error s)"
  by (simp add: analyzeReport_def)

text \<open>
  Claim C5. Selecting a file that is not a PDF, or a PDF of more than 10 MiB, shows the
  toast of that violation, empties the file input and calls no endpoint, and
  \<open>analyzeReport\<close> after it calls none either; \<open>analyzeReport\<close> without a file shows its own
  toast and calls no endpoint; a PDF of exactly 10 MiB passes the validation and stays
  selected.
\<close>

theorem report_file_validation:
  "(file_type f \<noteq> js ''application/pdf'' \<longrightarrow>
      toasts (selectFile f s) = toasts s @ [(js ''Please select a PDF file'', Error)]
      \<and> reportFile (selectFile f s) = None
      \<and> requests (selectFile f s) = requests s
      \<and> (\<exists>s'. analyzeReport e (selectFile f s) = Some (Inr (), s') \<and> requests s' = requests s))
   \<and> (file_type f = js ''application/pdf'' \<and> 10 * 1024 * 1024 < file_size f \<longrightarrow>
      toasts (selectFile f s) =
        toasts s @ [(js ''File too large. Please select a file under 10MB.'', Error)]
      \<and> reportFile (selectFile f s) = None
      \<and> requests (selectFile f s) = requests s
      \<and> (\<exists>s'. analyzeReport e (selectFile f s) = Some (Inr (), s') \<and> requests s' = requests s))
   \<and> (reportFile s = None \<longrightarrow>
      (\<exists>s'. analyzeReport e s = Some (Inr (), s')
         \<and> toasts s' = toasts s @ [(js ''Please select a PDF file first'', Error)]
         \<and> requests s' = requests s))
   \<and> (file_type f = js ''application/pdf'' \<and> file_size f = 10 * 1024 * 1024 \<longrightarrow>
      reportFile (selectFile f s) = Some f
      \<and> uploadPreview (selectFile f s) = Some (file_name f, file_size f)
      \<and> toasts (selectFile f s) = toasts s)"
proof (intro conjI impI)
  assume ty: "file_type f \<noteq> js ''application/pdf''"
  note eq = selectFile_wrong_type[OF ty, of s]
  show "toasts (selectFile f s) = toasts s @ [(js ''Please select a PDF file'', Error)]"
    by (simp add: eq clearFile_def showToast_def)
  show none: "reportFile (selectFile f s) = None"
    by (simp add: eq clearFile_def)
  show req: "requests (selectFile f s) = requests s"
    by (simp add: eq clearFile_def showToast_def)
  show "\<exists>s'. analyzeReport e (selectFile f s) = Some (Inr (), s') \<and> requests s' = requests s"
    by (simp add: analyzeReport_no_file[OF none] showToast_def req)
next
  assume "file_type f = js ''application/pdf'' \<and> 10 * 1024 * 1024 < file_size f"
  then have ty: "file_type f = js ''application/pdf''" and sz: "10 * 1024 * 1024 < file_size f"
    by simp_all
  note eq = selectFile_too_large[OF ty sz, of s]
  show "toasts (selectFile f s) =
          toasts s @ [(js ''File too large. Please select a file under 10MB.'', Error)]"
    by (simp add: eq clearFile_def showToast_def)
  show none: "reportFile (selectFile f s) = None"
    by (simp add: eq clearFile_def)
  show req: "requests (selectFile f s) = requests s"
    by (simp add: eq clearFile_def showToast_def)
  show "\<exists>s'. analyzeReport e (selectFile f s) = Some (Inr (), s') \<and> requests s' = requests s"
    by (simp add: analyzeReport_no_file[OF none] showToast_def req)
next
  assume none: "reportFile s = None"
  show "\<exists>s'. analyzeReport e s = Some (Inr (), s')
         \<and> toasts s' = toasts s @ [(js ''Please select a PDF file first'', Error)]
         \<and> requests s' = requests s"
    by (simp add: analyzeReport_no_file[OF none] showToast_def)
next
  assume ok: "file_type f = js ''application/pdf'' \<and> file_size f = 10 * 1024 * 1024"
  then show "reportFile (selectFile f s) = Some f"
    by (simp add: selectFile_def handleFileSelect_def)
  from ok show "uploadPreview (selectFile f s) = Some (file_name f, file_size f)"
    by (simp add: selectFile_def handleFileSelect_def)
  from ok show "toasts (selectFile f s) = toasts s"
    by (simp add: selectFile_def handleFileSelect_def)
qed

theorem report_file_validation_witness:
  "file_type text_file \<noteq> js ''application/pdf''
   \<and> toasts (selectFile text_file fresh) = [(js ''Please select a PDF file'', Error)]
   \<and> file_type huge_pdf = js ''application/pdf'' \<and> 10 * 1024 * 1024 < file_size huge_pdf
   \<and> toasts (selectFile huge_pdf fresh) =
        [(js ''File too large. Please select a file under 10MB.'', Error)]
   \<and> reportFile fresh = None
   \<and> (\<exists>s'. analyzeReport offline fresh = Some (Inr (), s')
         \<and> toasts s' = [(js ''Please select a PDF file first'', Error)] \<and> requests s' = [])
   \<and> file_type limit_pdf = js ''application/pdf'' \<and> file_size limit_pdf = 10 * 1024 * 1024
   \<and> reportFile (selectFile limit_pdf fresh) = Some limit_pdf"
proof -
  have t: "file_type text_file \<noteq> js ''application/pdf''"
    by (simp add: text_file_def js_eq_iff)
  have h: "file_type huge_pdf = js ''application/pdf'' \<and> 10 * 1024 * 1024 < file_size huge_pdf"
    by (simp add: huge_pdf_def)
  have l: "file_type limit_pdf = js ''application/pdf'' \<and> file_size limit_pdf = 10 * 1024 * 1024"
    by (simp add: limit_pdf_def)
  have f: "reportFile fresh = None" "toasts fresh = []" "requests fresh = []"
    by (simp_all add: fresh_def)
  show ?thesis
    using report_file_validation[of text_file fresh offline, THEN conjunct1]
      report_file_validation[of huge_pdf fresh offline, THEN conjunct2, THEN conjunct1]
      report_file_validation[of limit_pdf fresh offline, THEN conjunct2, THEN conjunct2, THEN conjunct1]
      report_file_validation[of limit_pdf fresh offline, THEN conjunct2, THEN conjunct2, THEN conjunct2]
      t h l
    by (simp add: f)
qed

section \<open>Defaults of the prediction form\<close>

lemma zero_is_digit: "is_radix_digit 10 48"
  by (simp add: is_radix_digit_def digit_val_def)

lemma parseInt_NaN:
  assumes "no_leading_numeral v"
  shows "parseInt v = NaN"
proof -
  obtain neg s1 where ss: "strip_sign (dropWhile is_ws v) = (neg, s1)"
    by (cases "strip_sign (dropWhile is_ws v)")
  show ?thesis
  proof (cases s1)
    case Nil
    then show ?thesis by (simp add: parseInt_def ss js_def)
  next
    case (Cons c cs)
    with assms ss have nd: "\<not> is_radix_digit 10 c"
      by (simp add: no_leading_numeral_def)
    with zero_is_digit have c0: "c \<noteq> 48" by auto
    show ?thesis
      using nd c0 by (simp add: parseInt_def ss Cons js_def)
  qed
qed

lemma parseFloat_NaN:
  assumes "no_leading_numeral v"
  shows "parseFloat v = NaN"
proof -
  obtain neg s1 where ss: "strip_sign (dropWhile is_ws v) = (neg, s1)"
    by (cases "strip_sign (dropWhile is_ws v)")
  show ?thesis
  proof (cases s1)
    case Nil
    then show ?thesis by (simp add: parseFloat_def ss js_def)
  next
    case (Cons c cs)
    with assms ss have nd: "\<not> is_radix_digit 10 c" and dot: "c \<noteq> of_char (CHR ''.'')"
      and inf: "take 8 s1 \<noteq> js ''Infinity''"
      by (simp_all add: no_leading_numeral_def)
    show ?thesis
      using nd dot inf by (simp add: parseFloat_def ss Cons)
  qed
qed

lemma null_is_no_number: "parseInt (js ''null'') = NaN" "parseFloat (js ''null'') = NaN"
  by (simp_all add: parseInt_NaN parseFloat_NaN no_leading_numeral_def strip_sign_def is_ws_def
        is_sign_def is_radix_digit_def digit_val_def js_def)

lemma missing_is_no_number:
  "parseInt (to_string None) = NaN" "parseFloat (to_string None) = NaN"
  by (simp_all add: to_string_def null_is_no_number)

lemmas parse_defs =
  parseInt_def parseFloat_def strip_sign_def is_ws_def is_sign_def is_radix_digit_def
  digit_val_def numeral_value_def signed_def exponent_part_def pow10_def js_def

text \<open>What the two parsers read in some texts: a zero, a number before letters, a zero
  before letters, a number after a no-break space, and no number at all.\<close>

lemma parseInt_examples:
  "parseInt (js ''0'') = Num 0" "parseInt (js ''12abc'') = Num 12"
  "parseInt (js ''0abc'') = Num 0" "parseInt (160 # js ''42'') = Num 42"
  "parseInt (js ''-0'') = Num 0" "parseInt (js ''0x1F'') = Num 31"
  "parseInt [] = NaN" "parseInt (js ''.5'') = NaN" "parseInt (js ''Infinity'') = NaN"
  "parseInt (160 # js ''x'') = NaN" "parseInt (js ''abc'') = NaN"
  by (simp_all add: parse_defs)

lemma parseFloat_examples:
  "parseFloat (js ''0'') = Num 0" "parseFloat (js ''0.0'') = Num 0"
  "parseFloat (js ''.5'') = Num (1 / 2)" "parseFloat (160 # js ''42'') = Num 42"
  "parseFloat (js ''-12.5e-1abc'') = Num (- (5 / 4))"
  "parseFloat (js ''Infinity'') = PosInfinity"
  "parseFloat (js ''abc'') = NaN" "parseFloat (js ''.'') = NaN" "parseFloat (js ''e5'') = NaN"
  "parseFloat [] = NaN"
  by (simp_all add: parse_defs)

lemma submitPredictionForm_try_requests:
  "submitPredictionForm_try e pd s = (r, s') \<Longrightarrow> requests s' = requests s @ [POST_predict pd]"
  by (auto simp: submitPredictionForm_try_def Let_def fetch_def showToast_def hideModal_def
        addMessage_def tick_def split: outcome.splits option.splits)

text \<open>Every run of \<open>submitPredictionForm\<close> that returns: after the calls of identity
  creation it either throws on a \<open>null\<close> identity, before any call to \<open>POST /predict\<close>, or
  sends the payload built from the form as its last call.\<close>

lemma submitPredictionForm_submits:
  assumes "\<not> falsy (currentUser s) \<or> \<not> is_duplicate (users_replies e j)"
  shows "\<exists>r s' rs.
           submitPredictionForm e s = Some (r, s')
           \<and> list_all is_users_request rs
           \<and> (\<not> falsy (currentUser s) \<longrightarrow> currentUser s' = currentUser s)
           \<and> (if currentUser s' = JNull
                then r = Inl TypeError \<and> requests s' = requests s @ rs
                else \<exists>uid. r = Inr () \<and>
                  requests s' =
                    requests s @ rs @ [POST_predict (predictionData uid (predictionForm s))])"
proof -
  from ensureUser_returns[OF assms] obtain s1 where s1: "ensureUser e s = Some s1" by blast
  note E = ensureUser_effect[OF s1]
  from E(13) obtain rs where rs: "requests s1 = requests s @ rs" "list_all is_users_request rs"
    by blast
  have kept: "\<not> falsy (currentUser s) \<longrightarrow> currentUser s1 = currentUser s"
    using s1 by (auto simp: ensureUser_def)
  show ?thesis
  proof (cases "id_of (currentUser s1)")
    case (Inl err)
    then have n: "currentUser s1 = JNull" "err = TypeError" by (simp_all add: id_of_throws_iff)
    have run: "submitPredictionForm e s = Some (Inl TypeError, s1)"
      by (simp add: submitPredictionForm_def s1 Inl n)
    show ?thesis
      by (rule exI[of _ "Inl TypeError"], rule exI[of _ s1], rule exI[of _ rs])
         (use run rs kept n in simp)
  next
    case (Inr uid)
    then have nn: "currentUser s1 \<noteq> JNull" by auto
    define pd where "pd = predictionData uid (predictionForm s)"
    define s2 where "s2 = showLoading (js ''Calculating your health risk...'') s1"
    obtain r s3 where t: "submitPredictionForm_try e pd s2 = (r, s3)"
      by (cases "submitPredictionForm_try e pd s2")
    have r3: "requests s3 = requests s2 @ [POST_predict pd]"
      by (rule submitPredictionForm_try_requests[OF t])
    have u3: "currentUser s3 = currentUser s1"
      using submitPredictionForm_try_user[OF t] by (simp add: s2_def showLoading_def showModal_def)
    have r2: "requests s2 = requests s1"
      by (simp add: s2_def showLoading_def showModal_def)
    define s' where "s' = hideLoading (case r of
          Inl err \<Rightarrow> showToast (js ''Error calculating risk. Please try again.'') Error s3
        | Inr u \<Rightarrow> s3)"
    have run: "submitPredictionForm e s = Some (Inr (), s')"
      by (simp add: submitPredictionForm_def s1 Inr Let_def pd_def[symmetric] s2_def[symmetric]
            t s'_def)
    have req: "requests s' = requests s @ rs @ [POST_predict pd]"
      by (cases r) (simp_all add: s'_def hideLoading_keeps showToast_def r3 r2 rs(1))
    have us: "currentUser s' = currentUser s1"
      by (cases r) (simp_all add: s'_def hideLoading_keeps showToast_def u3)
    show ?thesis
      by (rule exI[of _ "Inr ()"], rule exI[of _ s'], rule exI[of _ rs])
         (use run rs(2) kept nn us req in \<open>auto simp: pd_def\<close>)
  qed
qed

lemma predictionData_unread:
  "(fd ''age'' = None \<or> parseInt (to_string (fd ''age'')) = NaN \<longrightarrow>
      age (predictionData uid fd) = Num 30)
   \<and> (fd ''bmi'' = None \<or> parseFloat (to_string (fd ''bmi'')) = NaN \<longrightarrow>
      bmi (predictionData uid fd) = Num 25)
   \<and> (fd ''glucose'' = None \<or> parseInt (to_string (fd ''glucose'')) = NaN \<longrightarrow>
      glucose (predictionData uid fd) = Num 100)
   \<and> (fd ''blood_pressure'' = None \<or> parseInt (to_string (fd ''blood_pressure'')) = NaN \<longrightarrow>
      blood_pressure (predictionData uid fd) = Num 120)
   \<and> (fd ''diabetes_pedigree'' = None \<or> parseFloat (to_string (fd ''diabetes_pedigree'')) = NaN \<longrightarrow>
      diabetes_pedigree (predictionData uid fd) = Num (1 / 2))
   \<and> (fd ''pregnancies'' = None \<or> parseInt (to_string (fd ''pregnancies'')) = NaN \<longrightarrow>
      pregnancies (predictionData uid fd) = Num 0)
   \<and> (fd ''skin_thickness'' = None \<or> parseFloat (to_string (fd ''skin_thickness'')) = NaN \<longrightarrow>
      skin_thickness (predictionData uid fd) = Num 20)
   \<and> (fd ''insulin'' = None \<or> parseInt (to_string (fd ''insulin'')) = NaN \<longrightarrow>
      insulin (predictionData uid fd) = Num 80)
   \<and> (fd ''gender'' = None \<or> fd ''gender'' = Some [] \<longrightarrow>
      gender (predictionData uid fd) = js ''unknown'')
   \<and> (fd ''lifestyle'' = None \<or> fd ''lifestyle'' = Some [] \<longrightarrow>
      lifestyle (predictionData uid fd) = js ''Not specified'')
   \<and> (fd ''symptoms'' = None \<or> fd ''symptoms'' = Some [] \<longrightarrow>
      symptoms (predictionData uid fd) = js ''No symptoms reported'')"
  by (auto simp add: predictionData_def or_num_def or_string_def missing_is_no_number)

lemma predictionData_zero:
  "(parseInt (to_string (fd ''age'')) = Num 0 \<longrightarrow> age (predictionData uid fd) = Num 30)
   \<and> (parseFloat (to_string (fd ''bmi'')) = Num 0 \<longrightarrow> bmi (predictionData uid fd) = Num 25)
   \<and> (parseInt (to_string (fd ''glucose'')) = Num 0 \<longrightarrow>
        glucose (predictionData uid fd) = Num 100)
   \<and> (parseInt (to_string (fd ''blood_pressure'')) = Num 0 \<longrightarrow>
        blood_pressure (predictionData uid fd) = Num 120)
   \<and> (parseFloat (to_string (fd ''diabetes_pedigree'')) = Num 0 \<longrightarrow>
        diabetes_pedigree (predictionData uid fd) = Num (1 / 2))
   \<and> (parseInt (to_string (fd ''pregnancies'')) = Num 0 \<longrightarrow>
        pregnancies (predictionData uid fd) = Num 0)
   \<and> (parseFloat (to_string (fd ''skin_thickness'')) = Num 0 \<longrightarrow>
        skin_thickness (predictionData uid fd) = Num 20)
   \<and> (parseInt (to_string (fd ''insulin'')) = Num 0 \<longrightarrow>
        insulin (predictionData uid fd) = Num 80)"
  by (simp add: predictionData_def or_num_def)

lemma id_of_guest: "id_of guest = Inr (Some (JNum 7))" "\<not> falsy guest" "guest \<noteq> JNull"
  by (simp_all add: guest_def)

lemma predictionData_typed_form:
  "predictionData (Some (JNum 7)) typed_form =
     \<lparr>pd_user_id = Some (JNum 7), age = Num 12, gender = js ''unknown'',
      lifestyle = js ''Not specified'', symptoms = js ''No symptoms reported'', bmi = Num 25,
      glucose = Num 100, blood_pressure = Num 120, diabetes_pedigree = Num (1 / 2),
      pregnancies = Num 0, skin_thickness = Num 20, insulin = Num 80\<rparr>"
  by (simp add: predictionData_def typed_form_def to_string_def parseInt_examples or_num_def
        or_string_def null_is_no_number)

text \<open>
  Claim C7, as stated, fails for text that is not a number but starts with one: with
  \<open>12abc\<close> in the age field the request to \<open>POST /predict\<close> carries the age 12, not the
  default 30.
\<close>

theorem typed_age_is_submitted:
  "predictionForm (fresh\<lparr>currentUser := guest, predictionForm := typed_form\<rparr>) ''age''
     = Some (js ''12abc'')
   \<and> map_option (requests \<circ> snd)
       (submitPredictionForm offline (fresh\<lparr>currentUser := guest, predictionForm := typed_form\<rparr>))
     = Some [POST_predict (predictionData (Some (JNum 7)) typed_form)]
   \<and> age (predictionData (Some (JNum 7)) typed_form) = Num 12"
proof -
  have f: "predictionForm (fresh\<lparr>currentUser := guest, predictionForm := typed_form\<rparr>) ''age''
             = Some (js ''12abc'')"
    by (simp add: typed_form_def)
  have r: "map_option (requests \<circ> snd)
       (submitPredictionForm offline (fresh\<lparr>currentUser := guest, predictionForm := typed_form\<rparr>))
     = Some [POST_predict (predictionData (Some (JNum 7)) typed_form)]"
    by (simp add: submitPredictionForm_def ensureUser_def submitPredictionForm_try_def Let_def
          id_of_guest offline_def fresh_def fetch_def showLoading_def showModal_def showToast_def
          hideLoading_def hideModal_def)
  have a: "age (predictionData (Some (JNum 7)) typed_form) = Num 12"
    by (simp add: predictionData_typed_form)
  from f r a show ?thesis by simp
qed

text \<open>
  Claim C7, amended. A run of \<open>submitPredictionForm\<close> (for which identity creation returns)
  either throws on a \<open>null\<close> identity before anything is sent, or sends to \<open>POST /predict\<close>
  a payload that holds the documented default for each numeric field that is missing or
  in whose text the parser of the field reads no number (\<open>parseInt\<close> for age, glucose,
  blood pressure, pregnancies and insulin, \<open>parseFloat\<close> for bmi, diabetes pedigree and
  skin thickness yield \<open>NaN\<close>): age 30, bmi 25, glucose 100, blood pressure 120, diabetes
  pedigree 0.5, pregnancies 0, skin thickness 20, insulin 80. A missing or empty gender
  is sent as \<open>unknown\<close>, a missing or empty lifestyle or symptoms field as its placeholder.
\<close>

theorem unread_fields_submit_defaults:
  assumes "\<not> falsy (currentUser s) \<or> \<not> is_duplicate (users_replies e j)"
  shows "\<exists>r s' rs.
           submitPredictionForm e s = Some (r, s')
           \<and> list_all is_users_request rs
           \<and> (\<not> falsy (currentUser s) \<longrightarrow> currentUser s' = currentUser s)
           \<and> (if currentUser s' = JNull
                then r = Inl TypeError \<and> requests s' = requests s @ rs
                else \<exists>pd.
                  r = Inr () \<and> requests s' = requests s @ rs @ [POST_predict pd]
                  \<and> (predictionForm s ''age'' = None
                       \<or> parseInt (to_string (predictionForm s ''age'')) = NaN \<longrightarrow>
                      age pd = Num 30)
                  \<and> (predictionForm s ''bmi'' = None
                       \<or> parseFloat (to_string (predictionForm s ''bmi'')) = NaN \<longrightarrow>
                      bmi pd = Num 25)
                  \<and> (predictionForm s ''glucose'' = None
                       \<or> parseInt (to_string (predictionForm s ''glucose'')) = NaN \<longrightarrow>
                      glucose pd = Num 100)
                  \<and> (predictionForm s ''blood_pressure'' = None
                       \<or> parseInt (to_string (predictionForm s ''blood_pressure'')) = NaN \<longrightarrow>
                      blood_pressure pd = Num 120)
                  \<and> (predictionForm s ''diabetes_pedigree'' = None
                       \<or> parseFloat (to_string (predictionForm s ''diabetes_pedigree'')) = NaN \<longrightarrow>
                      diabetes_pedigree pd = Num (1 / 2))
                  \<and> (predictionForm s ''pregnancies'' = None
                       \<or> parseInt (to_string (predictionForm s ''pregnancies'')) = NaN \<longrightarrow>
                      pregnancies pd = Num 0)
                  \<and> (predictionForm s ''skin_thickness'' = None
                       \<or> parseFloat (to_string (predictionForm s ''skin_thickness'')) = NaN \<longrightarrow>
                      skin_thickness pd = Num 20)
                  \<and> (predictionForm s ''insulin'' = None
                       \<or> parseInt (to_string (predictionForm s ''insulin'')) = NaN \<longrightarrow>
                      insulin pd = Num 80)
                  \<and> (predictionForm s ''gender'' = None \<or> predictionForm s ''gender'' = Some [] \<longrightarrow>
                      gender pd = js ''unknown'')
                  \<and> (predictionForm s ''lifestyle'' = None
                       \<or> predictionForm s ''lifestyle'' = Some [] \<longrightarrow>
                      lifestyle pd = js ''Not specified'')
                  \<and> (predictionForm s ''symptoms'' = None
                       \<or> predictionForm s ''symptoms'' = Some [] \<longrightarrow>
                      symptoms pd = js ''No symptoms reported''))"
proof -
  from submitPredictionForm_submits[OF assms] obtain r s' rs where
    run: "submitPredictionForm e s = Some (r, s')"
    and rs: "list_all is_users_request rs"
    and kept: "\<not> falsy (currentUser s) \<longrightarrow> currentUser s' = currentUser s"
    and out: "if currentUser s' = JNull
                then r = Inl TypeError \<and> requests s' = requests s @ rs
                else \<exists>uid. r = Inr () \<and>
                  requests s' =
                    requests s @ rs @ [POST_predict (predictionData uid (predictionForm s))]"
    by blast
  show ?thesis
  proof (cases "currentUser s' = JNull")
    case True
    show ?thesis
      by (rule exI[of _ r], rule exI[of _ s'], rule exI[of _ rs]) (use True run rs kept out in simp)
  next
    case False
    with out obtain uid where
      o: "r = Inr ()" "requests s' =
            requests s @ rs @ [POST_predict (predictionData uid (predictionForm s))]"
      by auto
    have pd: "\<exists>pd.
                  r = Inr () \<and> requests s' = requests s @ rs @ [POST_predict pd]
                  \<and> (predictionForm s ''age'' = None
                       \<or> parseInt (to_string (predictionForm s ''age'')) = NaN \<longrightarrow>
                      age pd = Num 30)
                  \<and> (predictionForm s ''bmi'' = None
                       \<or> parseFloat (to_string (predictionForm s ''bmi'')) = NaN \<longrightarrow>
                      bmi pd = Num 25)
                  \<and> (predictionForm s ''glucose'' = None
                       \<or> parseInt (to_string (predictionForm s ''glucose'')) = NaN \<longrightarrow>
                      glucose pd = Num 100)
                  \<and> (predictionForm s ''blood_pressure'' = None
                       \<or> parseInt (to_string (predictionForm s ''blood_pressure'')) = NaN \<longrightarrow>
                      blood_pressure pd = Num 120)
                  \<and> (predictionForm s ''diabetes_pedigree'' = None
                       \<or> parseFloat (to_string (predictionForm s ''diabetes_pedigree'')) = NaN \<longrightarrow>
                      diabetes_pedigree pd = Num (1 / 2))
                  \<and> (predictionForm s ''pregnancies'' = None
                       \<or> parseInt (to_string (predictionForm s ''pregnancies'')) = NaN \<longrightarrow>
                      pregnancies pd = Num 0)
                  \<and> (predictionForm s ''skin_thickness'' = None
                       \<or> parseFloat (to_string (predictionForm s ''skin_thickness'')) = NaN \<longrightarrow>
                      skin_thickness pd = Num 20)
                  \<and> (predictionForm s ''insulin'' = None
                       \<or> parseInt (to_string (predictionForm s ''insulin'')) = NaN \<longrightarrow>
                      insulin pd = Num 80)
                  \<and> (predictionForm s ''gender'' = None \<or> predictionForm s ''gender'' = Some [] \<longrightarrow>
                      gender pd = js ''unknown'')
                  \<and> (predictionForm s ''lifestyle'' = None
                       \<or> predictionForm s ''lifestyle'' = Some [] \<longrightarrow>
                      lifestyle pd = js ''Not specified'')
                  \<and> (predictionForm s ''symptoms'' = None
                       \<or> predictionForm s ''symptoms'' = Some [] \<longrightarrow>
                      symptoms pd = js ''No symptoms reported'')"
      by (rule exI[of _ "predictionData uid (predictionForm s)"])
         (use o predictionData_unread[of "predictionForm s" uid] in simp)
    show ?thesis
      by (rule exI[of _ r], rule exI[of _ s'], rule exI[of _ rs])
         (use False run rs kept pd in \<open>simp only: if_False simp_thms\<close>)
  qed
qed

text \<open>
  Claim C8. In a run of \<open>submitPredictionForm\<close> that sends a payload (every run for which
  identity creation returns, except the one that throws on a \<open>null\<close> identity), a numeric
  field whose text parses to 0, such as \<open>0\<close> itself, is sent with the documented default
  of the field and not with 0: bmi 25, glucose 100, and so on (for pregnancies the
  default is 0).
\<close>

theorem zero_fields_submit_defaults:
  assumes "\<not> falsy (currentUser s) \<or> \<not> is_duplicate (users_replies e j)"
  shows "\<exists>r s' rs.
           submitPredictionForm e s = Some (r, s')
           \<and> list_all is_users_request rs
           \<and> (\<not> falsy (currentUser s) \<longrightarrow> currentUser s' = currentUser s)
           \<and> (if currentUser s' = JNull
                then r = Inl TypeError \<and> requests s' = requests s @ rs
                else \<exists>pd.
                  r = Inr () \<and> requests s' = requests s @ rs @ [POST_predict pd]
                  \<and> (parseInt (to_string (predictionForm s ''age'')) = Num 0 \<longrightarrow> age pd = Num 30)
                  \<and> (parseFloat (to_string (predictionForm s ''bmi'')) = Num 0 \<longrightarrow> bmi pd = Num 25)
                  \<and> (parseInt (to_string (predictionForm s ''glucose'')) = Num 0 \<longrightarrow>
                       glucose pd = Num 100)
                  \<and> (parseInt (to_string (predictionForm s ''blood_pressure'')) = Num 0 \<longrightarrow>
                       blood_pressure pd = Num 120)
                  \<and> (parseFloat (to_string (predictionForm s ''diabetes_pedigree'')) = Num 0 \<longrightarrow>
                       diabetes_pedigree pd = Num (1 / 2))
                  \<and> (parseInt (to_string (predictionForm s ''pregnancies'')) = Num 0 \<longrightarrow>
                       pregnancies pd = Num 0)
                  \<and> (parseFloat (to_string (predictionForm s ''skin_thickness'')) = Num 0 \<longrightarrow>
                       skin_thickness pd = Num 20)
                  \<and> (parseInt (to_string (predictionForm s ''insulin'')) = Num 0 \<longrightarrow>
                       insulin pd = Num 80))"
proof -
  from submitPredictionForm_submits[OF assms] obtain r s' rs where
    run: "submitPredictionForm e s = Some (r, s')"
    and rs: "list_all is_users_request rs"
    and kept: "\<not> falsy (currentUser s) \<longrightarrow> currentUser s' = currentUser s"
    and out: "if currentUser s' = JNull
                then r = Inl TypeError \<and> requests s' = requests s @ rs
                else \<exists>uid. r = Inr () \<and>
                  requests s' =
                    requests s @ rs @ [POST_predict (predictionData uid (predictionForm s))]"
    by blast
  show ?thesis
  proof (cases "currentUser s' = JNull")
    case True
    show ?thesis
      by (rule exI[of _ r], rule exI[of _ s'], rule exI[of _ rs]) (use True run rs kept out in simp)
  next
    case False
    with out obtain uid where
      o: "r = Inr ()" "requests s' =
            requests s @ rs @ [POST_predict (predictionData uid (predictionForm s))]"
      by auto
    have pd: "\<exists>pd. r = Inr () \<and> requests s' = requests s @ rs @ [POST_predict pd]
                  \<and> (parseInt (to_string (predictionForm s ''age'')) = Num 0 \<longrightarrow> age pd = Num 30)
                  \<and> (parseFloat (to_string (predictionForm s ''bmi'')) = Num 0 \<longrightarrow> bmi pd = Num 25)
                  \<and> (parseInt (to_string (predictionForm s ''glucose'')) = Num 0 \<longrightarrow>
                       glucose pd = Num 100)
                  \<and> (parseInt (to_string (predictionForm s ''blood_pressure'')) = Num 0 \<longrightarrow>
                       blood_pressure pd = Num 120)
                  \<and> (parseFloat (to_string (predictionForm s ''diabetes_pedigree'')) = Num 0 \<longrightarrow>
                       diabetes_pedigree pd = Num (1 / 2))
                  \<and> (parseInt (to_string (predictionForm s ''pregnancies'')) = Num 0 \<longrightarrow>
                       pregnancies pd = Num 0)
                  \<and> (parseFloat (to_string (predictionForm s ''skin_thickness'')) = Num 0 \<longrightarrow>
                       skin_thickness pd = Num 20)
                  \<and> (parseInt (to_string (predictionForm s ''insulin'')) = Num 0 \<longrightarrow>
                       insulin pd = Num 80)"
      by (rule exI[of _ "predictionData uid (predictionForm s)"])
         (use o predictionData_zero[of "predictionForm s" uid] in simp)
    show ?thesis
      by (rule exI[of _ r], rule exI[of _ s'], rule exI[of _ rs])
         (use False run rs kept pd in \<open>simp only: if_False simp_thms\<close>)
  qed
qed

theorem zero_fields_witness:
  "\<not> falsy (currentUser (fresh\<lparr>currentUser := guest, predictionForm := zero_form\<rparr>))
   \<and> predictionForm (fresh\<lparr>currentUser := guest, predictionForm := zero_form\<rparr>) ''bmi''
       = Some (js ''0'')
   \<and> parseInt (to_string (Some (js ''0''))) = Num 0
   \<and> parseFloat (to_string (Some (js ''0''))) = Num 0
   \<and> (\<exists>r s' rs pd.
         submitPredictionForm offline (fresh\<lparr>currentUser := guest, predictionForm := zero_form\<rparr>)
           = Some (r, s')
         \<and> requests s' = rs @ [POST_predict pd]
         \<and> age pd = Num 30 \<and> bmi pd = Num 25 \<and> glucose pd = Num 100
         \<and> blood_pressure pd = Num 120 \<and> diabetes_pedigree pd = Num (1 / 2)
         \<and> pregnancies pd = Num 0 \<and> skin_thickness pd = Num 20 \<and> insulin pd = Num 80)"
proof -
  let ?s = "fresh\<lparr>currentUser := guest, predictionForm := zero_form\<rparr>"
  have t: "\<not> falsy (currentUser ?s)" by (simp add: id_of_guest)
  have t': "\<not> falsy (currentUser ?s) \<or> \<not> is_duplicate (users_replies offline 0)"
    using t by simp
  have f: "predictionForm ?s = (\<lambda>x. Some (js ''0''))" "requests ?s = []"
    by (simp_all add: fresh_def zero_form_def)
  have z: "parseInt (to_string (Some (js ''0''))) = Num 0"
    "parseFloat (to_string (Some (js ''0''))) = Num 0"
    by (simp_all add: to_string_def parseInt_examples parseFloat_examples)
  show ?thesis
    using zero_fields_submit_defaults[OF t'] t
    by (simp add: f z id_of_guest cong: conj_cong) blast
qed

lemma blank_form_unread:
  "blank_form ''age'' = None"
  "parseFloat (to_string (blank_form ''bmi'')) = NaN"
  "parseInt (to_string (blank_form ''glucose'')) = NaN"
  "parseInt (to_string (blank_form ''blood_pressure'')) = NaN"
  "parseFloat (to_string (blank_form ''diabetes_pedigree'')) = NaN"
  "parseInt (to_string (blank_form ''pregnancies'')) = NaN"
  "parseFloat (to_string (blank_form ''skin_thickness'')) = NaN"
  "parseInt (to_string (blank_form ''insulin'')) = NaN"
  "blank_form ''gender'' = Some []" "blank_form ''lifestyle'' = None"
  "blank_form ''symptoms'' = None"
  by (simp_all add: blank_form_def to_string_def parseInt_examples parseFloat_examples)

theorem unread_fields_witness:
  "\<not> falsy (currentUser (fresh\<lparr>currentUser := guest, predictionForm := blank_form\<rparr>))
   \<and> blank_form ''age'' = None
   \<and> parseFloat (to_string (blank_form ''bmi'')) = NaN
   \<and> parseInt (to_string (blank_form ''glucose'')) = NaN
   \<and> parseInt (to_string (blank_form ''blood_pressure'')) = NaN
   \<and> parseFloat (to_string (blank_form ''diabetes_pedigree'')) = NaN
   \<and> parseInt (to_string (blank_form ''pregnancies'')) = NaN
   \<and> parseFloat (to_string (blank_form ''skin_thickness'')) = NaN
   \<and> parseInt (to_string (blank_form ''insulin'')) = NaN
   \<and> blank_form ''gender'' = Some [] \<and> blank_form ''lifestyle'' = None
   \<and> blank_form ''symptoms'' = None
   \<and> (\<exists>r s' rs pd.
         submitPredictionForm offline (fresh\<lparr>currentUser := guest, predictionForm := blank_form\<rparr>)
           = Some (r, s')
         \<and> requests s' = rs @ [POST_predict pd]
         \<and> age pd = Num 30 \<and> bmi pd = Num 25 \<and> glucose pd = Num 100
         \<and> blood_pressure pd = Num 120 \<and> diabetes_pedigree pd = Num (1 / 2)
         \<and> pregnancies pd = Num 0 \<and> skin_thickness pd = Num 20 \<and> insulin pd = Num 80
         \<and> gender pd = js ''unknown'' \<and> lifestyle pd = js ''Not specified''
         \<and> symptoms pd = js ''No symptoms reported'')"
proof -
  let ?s = "fresh\<lparr>currentUser := guest, predictionForm := blank_form\<rparr>"
  have t: "\<not> falsy (currentUser ?s)" by (simp add: id_of_guest)
  have t': "\<not> falsy (currentUser ?s) \<or> \<not> is_duplicate (users_replies offline 0)"
    using t by simp
  have f: "predictionForm ?s = blank_form" "requests ?s = []" "currentUser ?s = guest"
    by (simp_all add: fresh_def)
  show ?thesis
    using unread_fields_submit_defaults[OF t'] t
    by (simp add: f blank_form_unread id_of_guest cong: conj_cong) blast
qed

end
